theory Spec2Isabelle
  imports Complex_Main "HOL-Library.Sublist" "HOL-Library.Monad_Syntax" "HOL-Library.Word"
begin

section \<open>Strings\<close>

text \<open>
  Python strings are modelled as \<open>string\<close>; the development covers ASCII text, on which
  \<open>str.upper\<close> and \<open>str.lower\<close> change the letters a-z and A-Z only and keep the length.
  The substring test \<open>kw in s\<close> is \<^const>\<open>sublist\<close>.
\<close>

definition upper_char :: "char \<Rightarrow> char" where
  "upper_char c =
     (let n = (of_char c :: nat) in if 97 \<le> n \<and> n \<le> 122 then char_of (n - 32) else c)"

definition lower_char :: "char \<Rightarrow> char" where
  "lower_char c =
     (let n = (of_char c :: nat) in if 65 \<le> n \<and> n \<le> 90 then char_of (n + 32) else c)"

definition upper :: "string \<Rightarrow> string" where
  "upper s = map upper_char s"

definition lower :: "string \<Rightarrow> string" where
  "lower s = map lower_char s"

text \<open>\<open>s.replace(a, b)\<close> for one-character \<open>a\<close> and \<open>b\<close>.\<close>

definition replace_char :: "char \<Rightarrow> char \<Rightarrow> string \<Rightarrow> string" where
  "replace_char a b s = map (\<lambda>c. if c = a then b else c) s"

text \<open>\<open>any(kw in s for kw in kws)\<close>.\<close>

definition any_keyword :: "string list \<Rightarrow> string \<Rightarrow> bool" where
  "any_keyword kws s = list_ex (\<lambda>kw. sublist kw s) kws"


section \<open>Schema: task types (mcp_core/schema.py)\<close>

text \<open>
  The class \<open>TaskTypes\<close> is a namespace of string constants. It is modelled as the list of
  its attributes, name and value, in declaration order.
\<close>

definition TaskTypes :: "(string \<times> string) list" where
  "TaskTypes =
    [(''HF_TEXT_GENERATION'', ''huggingface.text.generation''),
     (''HF_TEXT_CLASSIFICATION'', ''huggingface.text.classification''),
     (''HF_TEXT_SUMMARIZATION'', ''huggingface.text.summarization''),
     (''HF_TEXT_TRANSLATION'', ''huggingface.text.translation''),
     (''HF_TEXT_QA'', ''huggingface.text.question_answering''),
     (''HF_VISION_CLASSIFICATION'', ''huggingface.vision.classification''),
     (''HF_VISION_DETECTION'', ''huggingface.vision.object_detection''),
     (''HF_VISION_SEGMENTATION'', ''huggingface.vision.segmentation''),
     (''HF_AUDIO_STT'', ''huggingface.audio.speech_recognition''),
     (''HF_AUDIO_TTS'', ''huggingface.audio.text_to_speech''),
     (''HF_MULTIMODAL_VQA'', ''huggingface.multimodal.visual_qa''),
     (''LC_AGENT_EXECUTE'', ''langchain.agent.execute''),
     (''LC_CHAT_EXECUTE'', ''langchain.chat.execute''),
     (''LC_REACT_EXECUTE'', ''langchain.react.execute''),
     (''LC_GENERATIVE_EXECUTE'', ''langchain.generative.execute''),
     (''LC_PLAN_EXECUTE'', ''langchain.plan_execute''),
     (''LC_BABYAGI_EXECUTE'', ''langchain.babyagi.execute''),
     (''DG_AUDIO_TRANSCRIBE_LIVE'', ''deepgram.audio.transcribe.live''),
     (''DG_AUDIO_TRANSCRIBE_FILE'', ''deepgram.audio.transcribe.file''),
     (''DG_AUDIO_AGENT_LIVE'', ''deepgram.audio.agent.live''),
     (''SYS_HEALTH_CHECK'', ''system.health_check''),
     (''SYS_TELEMETRY_QUERY'', ''system.telemetry_query''),
     (''SYS_CONFIG_UPDATE'', ''system.config_update''),
     (''LIFEOS_CALENDAR_SYNC'', ''lifeos.calendar.sync''),
     (''LIFEOS_EMAIL_PROCESS'', ''lifeos.email.process''),
     (''LIFEOS_CONTACT_SEARCH'', ''lifeos.contact.search''),
     (''SEC_AUDIT'', ''security.audit''),
     (''SEC_VULN_SCAN'', ''security.vulnerability_scan''),
     (''SEC_COMPLIANCE_CHECK'', ''security.compliance_check''),
     (''MEM_KG_UPSERT'', ''memory.knowledge_graph.upsert''),
     (''MEM_KG_QUERY'', ''memory.knowledge_graph.query''),
     (''MEM_CONTEXT_RETRIEVE'', ''memory.context.retrieve''),
     (''MEM_CONTEXT_STORE'', ''memory.context.store''),
     (''RESEARCH_WEB_SEARCH'', ''research.web.search''),
     (''RESEARCH_WEB_SCRAPE'', ''research.web.scrape''),
     (''WRITER_COMPOSE'', ''writer.compose''),
     (''CODEWRITER_GENERATE'', ''codewriter.generate''),
     (''ANALYTICS_RUN_QUERY'', ''analytics.run_query''),
     (''SCHEDULER_SCHEDULE_EVENT'', ''scheduler.schedule_event''),
     (''MULTIMODAL_FUSE'', ''multimodal.fuse''),
     (''TRANSLATION_DETECT_TRANSLATE'', ''translation.detect_translate''),
     (''NOTIFICATION_SEND'', ''notification.send''),
     (''ARTIST_GENERATE_IMAGE'', ''artist.generate_image''),
     (''DESIGN_CREATE_MOCKUP'', ''design.create_mockup''),
     (''COMEDIAN_GENERATE_JOKE'', ''comedian.generate_joke'')]"

text \<open>
  \<open>hasattr(TaskTypes, name)\<close>. Besides its own constants the class has the attributes
  every class inherits (\<open>__doc__\<close>, \<open>__init__\<close>, ...); each of those names contains a
  lower-case letter, and the only caller passes an upper-cased name, so the model looks
  the name up among the declared constants.
\<close>

definition hasattr_TaskTypes :: "string \<Rightarrow> bool" where
  "hasattr_TaskTypes name = (name \<in> set (map fst TaskTypes))"

text \<open>
  \<open>MCPValidator.is_valid_task_type\<close>:
  \<^verbatim>\<open>return hasattr(TaskTypes, task_type.upper().replace('.', '_'))\<close>
\<close>

definition is_valid_task_type :: "string \<Rightarrow> bool" where
  "is_valid_task_type task_type =
     hasattr_TaskTypes (replace_char (CHR ''.'') (CHR ''_'') (upper task_type))"

text \<open>The enumerated supported set: the values of the constants.\<close>

definition supported_task_types :: "string set" where
  "supported_task_types = set (map snd TaskTypes)"


section \<open>Agent manager: routing (cartrita_core/agent_manager.py)\<close>

definition supervisor_agent_id :: string where
  "supervisor_agent_id = ''supervisor_cartrita_v2''"

definition computer_keywords :: "string list" where
  "computer_keywords =
    [''screenshot'', ''click'', ''type'', ''scroll'', ''navigate'', ''browse'',
     ''open application'', ''close window'', ''desktop'', ''automate'',
     ''gui'', ''interface'', ''button'', ''menu'', ''mouse'', ''keyboard'']"

text \<open>\<open>_requires_computer_use\<close>: the description is lower-cased (again) before the scan.\<close>

definition requires_computer_use :: "string \<Rightarrow> bool" where
  "requires_computer_use task_description =
     any_keyword computer_keywords (lower task_description)"

text \<open>\<open>_route_task\<close>: an if-chain over the lower-cased description.\<close>

definition route_task :: "string \<Rightarrow> string" where
  "route_task description =
    (let task_description = lower description in
     if requires_computer_use task_description then ''computer_use_agent_v2''
     else if any_keyword
       [''search'', ''research'', ''find information'', ''look up'', ''investigate'',
        ''gather data'', ''fact check'', ''web search'', ''current events'']
       task_description then ''research_agent_v2''
     else if any_keyword
       [''image'', ''picture'', ''screenshot'', ''visual'', ''analyze image'',
        ''ocr'', ''computer vision'', ''describe image'']
       task_description then ''vision_agent_v2''
     else if any_keyword
       [''code'', ''program'', ''script'', ''function'', ''debug'', ''implement'',
        ''programming'', ''software'', ''algorithm'', ''javascript'', ''python'']
       task_description then ''code_writer_agent_v2''
     else if any_keyword
       [''write'', ''create content'', ''article'', ''blog'', ''essay'', ''documentation'',
        ''report'', ''copy'', ''compose'']
       task_description then ''writer_agent_v2''
     else supervisor_agent_id)"

text \<open>
  The choice made in \<open>execute_task\<close>:
  \<^verbatim>\<open>if preferred_agent and preferred_agent in self.agents: assigned_agent_id = preferred_agent
  else: assigned_agent_id = await self._route_task(task)\<close>
  \<open>preferred_agent\<close> is an \<open>Optional[str]\<close>; as a condition it is true when it is a
  non-empty string. The pool \<open>self.agents\<close> is a dictionary keyed by worker id.
\<close>

definition truthy_str :: "string option \<Rightarrow> bool" where
  "truthy_str p = (case p of None \<Rightarrow> False | Some s \<Rightarrow> s \<noteq> [])"

definition assign_agent :: "(string \<rightharpoonup> 'a) \<Rightarrow> string option \<Rightarrow> string \<Rightarrow> string" where
  "assign_agent agents preferred_agent description =
    (if truthy_str preferred_agent \<and> the preferred_agent \<in> dom agents
     then the preferred_agent
     else route_task description)"

text \<open>The ids created by \<open>_initialize_default_agents\<close>.\<close>

definition default_agent_ids :: "string set" where
  "default_agent_ids =
    {''supervisor_cartrita_v2'', ''research_agent_v2'', ''writer_agent_v2'',
     ''vision_agent_v2'', ''computer_use_agent_v2'', ''code_writer_agent_v2''}"

text \<open>
  The router as the specification words it: an ordered table of keyword groups, scanned
  in order after the preferred worker and the computer-use keywords; the first group
  with a substring match in the lower-cased description selects its worker.
\<close>

definition spec_keyword_groups :: "(string list \<times> string) list" where
  "spec_keyword_groups =
    [([''screenshot'', ''click'', ''type'', ''scroll'', ''navigate'', ''browse'',
       ''open application'', ''close window'', ''desktop'', ''automate'', ''gui'',
       ''interface'', ''button'', ''menu'', ''mouse'', ''keyboard''],
      ''computer_use_agent_v2''),
     ([''search'', ''research'', ''find information'', ''look up'', ''investigate'',
       ''gather data'', ''fact check'', ''web search'', ''current events''],
      ''research_agent_v2''),
     ([''image'', ''picture'', ''screenshot'', ''visual'', ''analyze image'', ''ocr'',
       ''computer vision'', ''describe image''],
      ''vision_agent_v2''),
     ([''code'', ''program'', ''script'', ''function'', ''debug'', ''implement'',
       ''programming'', ''software'', ''algorithm'', ''javascript'', ''python''],
      ''code_writer_agent_v2''),
     ([''write'', ''create content'', ''article'', ''blog'', ''essay'', ''documentation'',
       ''report'', ''copy'', ''compose''],
      ''writer_agent_v2'')]"

definition spec_router :: "string set \<Rightarrow> string option \<Rightarrow> string \<Rightarrow> string" where
  "spec_router pool preferred description =
    (case preferred of
       Some p \<Rightarrow>
         if p \<in> pool then p
         else (case find (\<lambda>(kws, w). \<exists>kw \<in> set kws. sublist kw (lower description))
                      spec_keyword_groups of
                 Some (kws, w) \<Rightarrow> w | None \<Rightarrow> ''supervisor_cartrita_v2'')
     | None \<Rightarrow>
         (case find (\<lambda>(kws, w). \<exists>kw \<in> set kws. sublist kw (lower description))
                      spec_keyword_groups of
            Some (kws, w) \<Rightarrow> w | None \<Rightarrow> ''supervisor_cartrita_v2''))"

text \<open>Two concrete pools: the default workers, and the default workers with one more
  worker whose id is the empty string (\<open>create_agent\<close> accepts any string as id).\<close>

definition default_pool :: "string \<rightharpoonup> unit" where
  "default_pool = map_of
     [(''supervisor_cartrita_v2'', ()), (''research_agent_v2'', ()),
      (''writer_agent_v2'', ()), (''vision_agent_v2'', ()),
      (''computer_use_agent_v2'', ()), (''code_writer_agent_v2'', ())]"

definition pool_with_empty_id :: "string \<rightharpoonup> unit" where
  "pool_with_empty_id = default_pool('''' \<mapsto> ())"


section \<open>Python values and exceptions\<close>

text \<open>
  The dynamically typed values the code passes around (tool parameters and results, raw
  messages, payloads). A dictionary is an association list in insertion order with string
  keys; a \<open>datetime\<close> is the number of microseconds since the epoch; a float is the
  rational it denotes (NaN and the infinities are outside the model).
\<close>

datatype pyval =
    VNone
  | VBool bool
  | VInt int
  | VFloat rat
  | VStr string
  | VDatetime int
  | VList "pyval list"
  | VDict "(string \<times> pyval) list"

text \<open>A raised exception: its class name and \<open>str(e)\<close>.\<close>

datatype exn = Exn (exn_class: string) (exn_str: string)

text \<open>Truth value of an object in a condition (\<open>x or y\<close>, \<open>if x\<close>).\<close>

fun truthy :: "pyval \<Rightarrow> bool" where
  "truthy VNone = False"
| "truthy (VBool b) = b"
| "truthy (VInt i) = (i \<noteq> 0)"
| "truthy (VFloat r) = (r \<noteq> 0)"
| "truthy (VStr s) = (s \<noteq> [])"
| "truthy (VDatetime t) = True"
| "truthy (VList xs) = (xs \<noteq> [])"
| "truthy (VDict kvs) = (kvs \<noteq> [])"

text \<open>\<open>d[k] = v\<close> on a dictionary: an existing key keeps its place, a new one goes last.\<close>

fun dict_set :: "'k \<Rightarrow> 'v \<Rightarrow> ('k \<times> 'v) list \<Rightarrow> ('k \<times> 'v) list" where
  "dict_set k v [] = [(k, v)]"
| "dict_set k v ((k', v') # kvs) =
     (if k' = k then (k, v) # kvs else (k', v') # dict_set k v kvs)"


section \<open>Tool registry (cartrita_core/tools.py)\<close>

datatype ToolPermissionLevel = PUBLIC | RESTRICTED | SUPERVISED | ADMIN

text \<open>
  A registered tool. The callable takes the keyword arguments and returns its result or
  raises; what it does to the outside world is not part of the registry.
\<close>

record tool =
  tool_function :: "(string \<times> pyval) list \<Rightarrow> exn + pyval"
  tool_description :: string
  tool_parameters :: pyval
  tool_registered_at :: string

text \<open>
  The registry object. \<open>calls\<close> is not a field of the class: it records, in order, every
  invocation of a tool callable with its keyword arguments, so that "the callable is
  invoked" is a fact about the state.
\<close>

record registry =
  tools :: "string \<rightharpoonup> tool"
  tool_permissions :: "string \<rightharpoonup> ToolPermissionLevel"
  agent_permissions :: "string \<rightharpoonup> string list"
  tool_usage :: "string \<rightharpoonup> nat"
  execution_history :: "pyval list"
  calls :: "(string \<times> (string \<times> pyval) list) list"

text \<open>
  What the registry takes from the standard library: \<open>json.loads\<close> (\<open>None\<close> when it
  raises \<open>JSONDecodeError\<close>), \<open>str\<close> of an object, \<open>datetime.isoformat\<close>.
\<close>

record runtime =
  json_loads :: "string \<Rightarrow> pyval option"
  str_of :: "pyval \<Rightarrow> string"
  isoformat :: "int \<Rightarrow> string"

definition empty_registry :: registry where
  "empty_registry =
     \<lparr>tools = Map.empty, tool_permissions = Map.empty, agent_permissions = Map.empty,
      tool_usage = Map.empty, execution_history = [], calls = []\<rparr>"

text \<open>\<open>register_tool\<close>; \<open>now\<close> is \<open>datetime.now().isoformat()\<close>.\<close>

definition register_tool ::
  "registry \<Rightarrow> string \<Rightarrow> ((string \<times> pyval) list \<Rightarrow> exn + pyval) \<Rightarrow> ToolPermissionLevel
     \<Rightarrow> string \<Rightarrow> pyval \<Rightarrow> string \<Rightarrow> registry" where
  "register_tool reg name fn permission_level descr params now =
     reg\<lparr>tools := (tools reg)(name \<mapsto>
            \<lparr>tool_function = fn, tool_description = descr, tool_parameters = params,
              tool_registered_at = now\<rparr>),
         tool_permissions := (tool_permissions reg)(name \<mapsto> permission_level),
         tool_usage := (tool_usage reg)(name \<mapsto> 0)\<rparr>"

text \<open>\<open>grant_permission\<close>: unknown tools are skipped, a tool is granted once.\<close>

fun grant_loop :: "registry \<Rightarrow> string list \<Rightarrow> string list \<Rightarrow> string list" where
  "grant_loop reg granted [] = granted"
| "grant_loop reg granted (tool_name # rest) =
     (if tool_name \<notin> dom (tools reg) then grant_loop reg granted rest
      else if tool_name \<notin> set granted then grant_loop reg (granted @ [tool_name]) rest
      else grant_loop reg granted rest)"

definition grant_permission :: "registry \<Rightarrow> string \<Rightarrow> string list \<Rightarrow> registry" where
  "grant_permission reg agent_id tool_names =
     (let granted = (case agent_permissions reg agent_id of None \<Rightarrow> [] | Some ts \<Rightarrow> ts)
      in reg\<lparr>agent_permissions :=
               (agent_permissions reg)(agent_id \<mapsto> grant_loop reg granted tool_names)\<rparr>)"

text \<open>
  \<open>_check_permission\<close>:
  \<^verbatim>\<open>permission_level = self.tool_permissions.get(tool_name, ToolPermissionLevel.ADMIN)
  if permission_level == ToolPermissionLevel.PUBLIC: return True
  agent_tools = self.agent_permissions.get(agent_id, [])
  return tool_name in agent_tools\<close>
\<close>

definition check_permission :: "registry \<Rightarrow> string \<Rightarrow> string \<Rightarrow> bool" where
  "check_permission reg agent_id tool_name =
     (let permission_level =
            (case tool_permissions reg tool_name of None \<Rightarrow> ADMIN | Some l \<Rightarrow> l)
      in if permission_level = PUBLIC then True
         else tool_name \<in> set (case agent_permissions reg agent_id of
                                   None \<Rightarrow> [] | Some ts \<Rightarrow> ts))"

text \<open>The two entries appended to the execution log, and the result of a failed run.\<close>

definition success_entry :: "runtime \<Rightarrow> string \<Rightarrow> string \<Rightarrow> rat \<Rightarrow> int \<Rightarrow> pyval" where
  "success_entry rt tool_name agent_id execution_time start_time =
     VDict [(''tool_name'', VStr tool_name), (''agent_id'', VStr agent_id),
            (''success'', VBool True), (''execution_time'', VFloat execution_time),
            (''timestamp'', VStr (isoformat rt start_time))]"

definition failure_entry :: "runtime \<Rightarrow> string \<Rightarrow> string \<Rightarrow> exn \<Rightarrow> int \<Rightarrow> pyval" where
  "failure_entry rt tool_name agent_id e now =
     VDict [(''tool_name'', VStr tool_name), (''agent_id'', VStr agent_id),
            (''success'', VBool False), (''error'', VStr (exn_str e)),
            (''timestamp'', VStr (isoformat rt now))]"

definition tool_failed ::
  "runtime \<Rightarrow> registry \<Rightarrow> string \<Rightarrow> string \<Rightarrow> exn \<Rightarrow> int \<Rightarrow> pyval \<times> registry" where
  "tool_failed rt reg tool_name agent_id e now =
     (VDict [(''success'', VBool False), (''error'', VStr (exn_str e))],
      reg\<lparr>execution_history :=
            execution_history reg @ [failure_entry rt tool_name agent_id e now]\<rparr>)"

text \<open>
  Parameter parsing: a string is decoded as JSON, or wrapped as \<open>{"input": raw}\<close> when it
  does not decode; anything else is taken as it is, \<open>{}\<close> when it is false as a condition.
\<close>

definition parse_parameters :: "runtime \<Rightarrow> pyval \<Rightarrow> pyval" where
  "parse_parameters rt ps =
     (case ps of
        VStr s \<Rightarrow> (case json_loads rt s of
                     Some v \<Rightarrow> v
                   | None \<Rightarrow> VDict [(''input'', VStr s)])
      | _ \<Rightarrow> if truthy ps then ps else VDict [])"

text \<open>
  \<open>execute_tool\<close>. \<open>start_time\<close> is the clock when the call starts, \<open>end_time\<close> the clock
  when it has returned or raised (microseconds). \<open>tool_function(**params)\<close> raises
  \<open>TypeError\<close> without calling when \<open>params\<close> is no mapping; everything from the call to
  the bookkeeping is inside the \<open>try\<close>.
\<close>

definition execute_tool ::
  "runtime \<Rightarrow> registry \<Rightarrow> string \<Rightarrow> pyval \<Rightarrow> string \<Rightarrow> int \<Rightarrow> int \<Rightarrow> pyval \<times> registry" where
  "execute_tool rt reg tool_name ps agent_id start_time end_time =
    (case tools reg tool_name of
       None \<Rightarrow>
         (VDict [(''success'', VBool False),
                 (''error'', VStr (''Tool '' @ tool_name @ '' not found''))], reg)
     | Some t \<Rightarrow>
         if \<not> check_permission reg agent_id tool_name then
           (VDict [(''success'', VBool False),
                   (''error'', VStr (''Agent '' @ agent_id @ '' lacks permission for tool ''
                                      @ tool_name))], reg)
         else
           (case parse_parameters rt ps of
              VDict kwargs \<Rightarrow>
                (let reg1 = reg\<lparr>calls := calls reg @ [(tool_name, kwargs)]\<rparr> in
                 case tool_function t kwargs of
                   Inl e \<Rightarrow> tool_failed rt reg1 tool_name agent_id e end_time
                 | Inr result \<Rightarrow>
                     (case tool_usage reg1 tool_name of
                        None \<Rightarrow> tool_failed rt reg1 tool_name agent_id
                                  (Exn ''KeyError'' ([CHR 0x27] @ tool_name @ [CHR 0x27])) end_time
                      | Some n \<Rightarrow>
                          (let execution_time = of_int (end_time - start_time) / 1000000;
                               reg2 = reg1\<lparr>tool_usage := (tool_usage reg1)(tool_name \<mapsto> n + 1),
                                           execution_history := execution_history reg1 @
                                             [success_entry rt tool_name agent_id
                                                execution_time start_time]\<rparr>;
                               d = (case result of
                                      VDict kvs \<Rightarrow> kvs
                                    | _ \<Rightarrow> [(''output'', VStr (str_of rt result))])
                           in (VDict (dict_set ''execution_time'' (VFloat execution_time)
                                        (dict_set ''success'' (VBool True) d)), reg2))))
            | _ \<Rightarrow> tool_failed rt reg tool_name agent_id
                     (Exn ''TypeError'' ''argument after ** must be a mapping'') end_time))"
text \<open>A small registry for the scenarios: a public and a restricted tool, no grants.\<close>

definition demo_tool :: "(string \<times> pyval) list \<Rightarrow> exn + pyval" where
  "demo_tool kwargs = Inr (VDict [(''echo'', VDict kwargs)])"

definition demo_runtime :: runtime where
  "demo_runtime = \<lparr>json_loads = (\<lambda>s. None), str_of = (\<lambda>v. ''object''),
                    isoformat = (\<lambda>t. ''1970-01-01T00:00:00'')\<rparr>"

definition demo_registry :: registry where
  "demo_registry =
     register_tool
       (register_tool empty_registry ''web_search'' demo_tool PUBLIC
          ''Search the web for information'' (VDict []) ''2026-01-01T00:00:00'')
       ''file_read'' demo_tool RESTRICTED ''Read contents of a file'' (VDict [])
       ''2026-01-01T00:00:00''"


subsection \<open>File tools\<close>

text \<open>
  The operating system as \<open>_file_read\<close> and \<open>_file_write\<close> use it, over a type \<open>'s\<close> of
  file-system states: \<open>str(path.resolve())\<close> (which may raise), \<open>path.exists()\<close>,
  \<open>path.is_dir()\<close>, \<open>str(path.parent)\<close>, reading a whole text file,
  \<open>mkdir(parents=True, exist_ok=True)\<close>, and opening a file in a mode and writing to it.
  The two operations that change the file system return the state they leave behind and
  the exception they raised, if any.
\<close>

record 's os =
  os_resolve :: "'s \<Rightarrow> string \<Rightarrow> exn + string"
  os_exists :: "'s \<Rightarrow> string \<Rightarrow> bool"
  os_is_dir :: "'s \<Rightarrow> string \<Rightarrow> bool"
  os_parent :: "string \<Rightarrow> string"
  os_read :: "'s \<Rightarrow> string \<Rightarrow> exn + string"
  os_mkdir :: "'s \<Rightarrow> string \<Rightarrow> exn option \<times> 's"
  os_write :: "'s \<Rightarrow> string \<Rightarrow> string \<Rightarrow> string \<Rightarrow> exn option \<times> 's"

text \<open>The file-system operations a tool performed, in order.\<close>

datatype os_op = OpRead string | OpMkdir string | OpWrite string string string

definition safe_dirs :: "string list" where
  "safe_dirs = [''/tmp'', ''/home'', ''/var/tmp'']"

text \<open>
  The security check:
  \<^verbatim>\<open>any(str(path.resolve()).startswith(safe_dir) for safe_dir in safe_dirs)\<close>
\<close>

definition path_allowed :: "string \<Rightarrow> bool" where
  "path_allowed resolved = list_ex (\<lambda>safe_dir. prefix safe_dir resolved) safe_dirs"

definition access_denied :: pyval where
  "access_denied = VDict [(''error'', VStr ''Access denied: unsafe directory'')]"

text \<open>\<open>_file_read\<close>; any exception inside is turned into \<open>File read failed\<close>.\<close>

definition file_read :: "'s os \<Rightarrow> 's \<Rightarrow> string \<Rightarrow> pyval \<times> os_op list" where
  "file_read sys s file_path =
    (if \<not> os_exists sys s file_path then
       (VDict [(''error'', VStr (''File not found: '' @ file_path))], [])
     else if os_is_dir sys s file_path then
       (VDict [(''error'', VStr (''Path is a directory: '' @ file_path))], [])
     else
       (case os_resolve sys s file_path of
          Inl e \<Rightarrow> (VDict [(''error'', VStr (''File read failed: '' @ exn_str e))], [])
        | Inr resolved \<Rightarrow>
            if \<not> path_allowed resolved then (access_denied, [])
            else
              (case os_read sys s file_path of
                 Inl e \<Rightarrow>
                   (VDict [(''error'', VStr (''File read failed: '' @ exn_str e))],
                    [OpRead file_path])
               | Inr content \<Rightarrow>
                   (VDict [(''file_path'', VStr file_path), (''content'', VStr content),
                           (''size_bytes'', VInt (int (length content)))],
                    [OpRead file_path]))))"

text \<open>\<open>_file_write\<close>; any exception inside is turned into \<open>File write failed\<close>.\<close>

definition file_write ::
  "'s os \<Rightarrow> 's \<Rightarrow> string \<Rightarrow> string \<Rightarrow> string \<Rightarrow> pyval \<times> 's \<times> os_op list" where
  "file_write sys s file_path content mode =
    (case os_resolve sys s file_path of
       Inl e \<Rightarrow> (VDict [(''error'', VStr (''File write failed: '' @ exn_str e))], s, [])
     | Inr resolved \<Rightarrow>
         if \<not> path_allowed resolved then (access_denied, s, [])
         else
           (case os_mkdir sys s (os_parent sys file_path) of
              (Some e, s1) \<Rightarrow>
                (VDict [(''error'', VStr (''File write failed: '' @ exn_str e))], s1,
                 [OpMkdir (os_parent sys file_path)])
            | (None, s1) \<Rightarrow>
                (case os_write sys s1 file_path mode content of
                   (Some e, s2) \<Rightarrow>
                     (VDict [(''error'', VStr (''File write failed: '' @ exn_str e))], s2,
                      [OpMkdir (os_parent sys file_path), OpWrite file_path mode content])
                 | (None, s2) \<Rightarrow>
                     (VDict [(''file_path'', VStr file_path),
                             (''bytes_written'', VInt (int (length content))),
                             (''mode'', VStr mode)], s2,
                      [OpMkdir (os_parent sys file_path),
                       OpWrite file_path mode content]))))"

text \<open>A resolved path lies under a directory: it is the directory or a path below it.\<close>

definition under :: "string \<Rightarrow> string \<Rightarrow> bool" where
  "under dir p = (p = dir \<or> prefix (dir @ ''/'') p)"

text \<open>
  A small file system for the scenarios: files by absolute path, a list of directories,
  no symbolic links and no relative paths, so that resolving a path returns it.
\<close>

record simple_fs =
  fs_files :: "(string \<times> string) list"
  fs_dirs :: "string list"

definition simple_parent :: "string \<Rightarrow> string" where
  "simple_parent p = rev (tl (dropWhile (\<lambda>c. c \<noteq> CHR ''/'') (rev p)))"

definition simple_write :: "simple_fs \<Rightarrow> string \<Rightarrow> string \<Rightarrow> string \<Rightarrow> exn option \<times> simple_fs" where
  "simple_write s p mode content =
    (if mode = ''w'' then (None, s\<lparr>fs_files := dict_set p content (fs_files s)\<rparr>)
     else if mode = ''a'' then
       (None, s\<lparr>fs_files := dict_set p
                  ((case map_of (fs_files s) p of None \<Rightarrow> [] | Some old \<Rightarrow> old) @ content)
                  (fs_files s)\<rparr>)
     else (Some (Exn ''ValueError'' (''invalid mode: '' @ mode)), s))"

definition simple_os :: "simple_fs os" where
  "simple_os =
    \<lparr>os_resolve = (\<lambda>s p. Inr p),
     os_exists = (\<lambda>s p. p \<in> set (map fst (fs_files s)) \<or> p \<in> set (fs_dirs s)),
     os_is_dir = (\<lambda>s p. p \<in> set (fs_dirs s)),
     os_parent = simple_parent,
     os_read = (\<lambda>s p. case map_of (fs_files s) p of
                          None \<Rightarrow> Inl (Exn ''FileNotFoundError'' p)
                        | Some content \<Rightarrow> Inr content),
     os_mkdir = (\<lambda>s d. (None, s\<lparr>fs_dirs := List.insert d (fs_dirs s)\<rparr>)),
     os_write = simple_write\<rparr>"

definition demo_fs :: simple_fs where
  "demo_fs = \<lparr>fs_files = [(''/etc/passwd'', ''root:x:0:0''), (''/tmp/a.txt'', ''hello'')],
              fs_dirs = [''/etc'', ''/tmp'']\<rparr>"


section \<open>Schema: messages (mcp_core/schema.py)\<close>

datatype DeliveryGuarantee = AT_MOST_ONCE | AT_LEAST_ONCE | EXACTLY_ONCE

datatype TaskStatus = PENDING | RUNNING | COMPLETED | FAILED | CANCELLED | TIMEOUT

text \<open>The members of a string enum are their names.\<close>

fun guarantee_value :: "DeliveryGuarantee \<Rightarrow> string" where
  "guarantee_value AT_MOST_ONCE = ''AT_MOST_ONCE''"
| "guarantee_value AT_LEAST_ONCE = ''AT_LEAST_ONCE''"
| "guarantee_value EXACTLY_ONCE = ''EXACTLY_ONCE''"

fun status_value :: "TaskStatus \<Rightarrow> string" where
  "status_value PENDING = ''PENDING''"
| "status_value RUNNING = ''RUNNING''"
| "status_value COMPLETED = ''COMPLETED''"
| "status_value FAILED = ''FAILED''"
| "status_value CANCELLED = ''CANCELLED''"
| "status_value TIMEOUT = ''TIMEOUT''"

text \<open>
  Attribute access on the enum class by name, as in \<open>TaskStatus.FAILED\<close>: a name that is
  no member raises \<open>AttributeError\<close>.
\<close>

definition TaskStatus_attr :: "string \<Rightarrow> exn + TaskStatus" where
  "TaskStatus_attr name =
     (case find (\<lambda>s. status_value s = name)
             [PENDING, RUNNING, COMPLETED, FAILED, CANCELLED, TIMEOUT] of
        Some s \<Rightarrow> Inr s
      | None \<Rightarrow> Inl (Exn ''AttributeError'' name))"

text \<open>The message-type and error-code constants.\<close>

definition MessageTypes :: "string list" where
  "MessageTypes =
    [''TASK_REQUEST'', ''TASK_RESPONSE'', ''TASK_PROGRESS'', ''TASK_CANCEL'',
     ''STREAM_START'', ''STREAM_DATA'', ''STREAM_END'', ''HEARTBEAT'', ''HEALTH_CHECK'',
     ''AGENT_REGISTER'', ''AGENT_DEREGISTER'', ''SYSTEM_COMMAND'', ''CONFIG_UPDATE'',
     ''EMERGENCY_STOP'']"

definition INTERNAL_ERROR :: string where
  "INTERNAL_ERROR = ''INTERNAL_ERROR''"

record CostBudget =
  bud_max_usd :: rat
  bud_max_tokens :: int
  bud_used_usd :: rat
  bud_used_tokens :: int
  bud_model_costs :: "(string \<times> rat) list"

record ResourceLimits =
  lim_max_cpu_percent :: int
  lim_max_memory_mb :: int
  lim_max_concurrent_requests :: int
  lim_max_processing_time_ms :: int

record MCPContext =
  ctx_trace_id :: string
  ctx_span_id :: string
  ctx_parent_span_id :: "string option"
  ctx_baggage :: "(string \<times> string) list"
  ctx_user_id :: "string option"
  ctx_session_id :: "string option"
  ctx_workspace_id :: "string option"
  ctx_request_id :: string
  ctx_timeout_ms :: int
  ctx_metadata :: "(string \<times> string) list"
  ctx_budget :: "CostBudget option"
  ctx_limits :: "ResourceLimits option"

record DeliveryOptions =
  dlv_guarantee :: DeliveryGuarantee
  dlv_retry_count :: int
  dlv_retry_delay_ms :: int
  dlv_require_ack :: bool
  dlv_priority :: int

record MCPMessage =
  msg_id :: string
  msg_correlation_id :: "string option"
  msg_trace_id :: string
  msg_span_id :: string
  msg_sender :: string
  msg_recipient :: string
  msg_message_type :: string
  msg_payload :: pyval
  msg_tags :: "string list"
  msg_context :: MCPContext
  msg_delivery :: DeliveryOptions
  msg_created_at :: int
  msg_expires_at :: "int option"
  msg_security_token :: "string option"
  msg_permissions :: "string list"

record TaskMetrics =
  met_processing_time_ms :: int
  met_queue_time_ms :: int
  met_retry_count :: int
  met_cost_usd :: rat
  met_tokens_used :: int
  met_model_used :: "string option"
  met_custom_metrics :: "(string \<times> rat) list"

record TaskResponse =
  rsp_task_id :: string
  rsp_status :: TaskStatus
  rsp_result :: "pyval option"
  rsp_error_message :: "string option"
  rsp_error_code :: "string option"
  rsp_metrics :: TaskMetrics
  rsp_warnings :: "string list"

record TaskRequest =
  req_task_type :: string
  req_task_id :: string
  req_parameters :: pyval
  req_metadata :: "(string \<times> string) list"
  req_preferred_agent :: "string option"
  req_priority :: int
  req_deadline :: "int option"

subsection \<open>Validation\<close>

text \<open>
  The models are pydantic models with \<open>extra="forbid"\<close>. How the library converts an
  input value to a field's type (its lax mode accepts more than values of exactly that
  type) is a parameter of the validators: a conversion returns \<open>None\<close> for a value it
  refuses. \<open>strict_coercions\<close> accepts values that already have the type and nothing
  else; every conversion regime of the library accepts those unchanged.
\<close>

record coercions =
  as_str :: "pyval \<Rightarrow> string option"
  as_int :: "pyval \<Rightarrow> int option"
  as_float :: "pyval \<Rightarrow> rat option"
  as_bool :: "pyval \<Rightarrow> bool option"
  as_datetime :: "pyval \<Rightarrow> int option"

definition strict_coercions :: coercions where
  "strict_coercions =
    \<lparr>as_str = (\<lambda>v. case v of VStr s \<Rightarrow> Some s | _ \<Rightarrow> None),
     as_int = (\<lambda>v. case v of VInt i \<Rightarrow> Some i | _ \<Rightarrow> None),
     as_float = (\<lambda>v. case v of VFloat r \<Rightarrow> Some r | _ \<Rightarrow> None),
     as_bool = (\<lambda>v. case v of VBool b \<Rightarrow> Some b | _ \<Rightarrow> None),
     as_datetime = (\<lambda>v. case v of VDatetime t \<Rightarrow> Some t | _ \<Rightarrow> None)\<rparr>"

text \<open>A required field, an \<open>Optional[...] = None\<close> field, a field with a default.\<close>

definition required :: "(pyval \<Rightarrow> 'a option) \<Rightarrow> (string \<times> pyval) list \<Rightarrow> string \<Rightarrow> 'a option" where
  "required conv kvs k = (case map_of kvs k of None \<Rightarrow> None | Some v \<Rightarrow> conv v)"

definition optional ::
  "(pyval \<Rightarrow> 'a option) \<Rightarrow> (string \<times> pyval) list \<Rightarrow> string \<Rightarrow> 'a option option" where
  "optional conv kvs k =
     (case map_of kvs k of
        None \<Rightarrow> Some None
      | Some VNone \<Rightarrow> Some None
      | Some v \<Rightarrow> map_option Some (conv v))"

definition defaulted ::
  "'a \<Rightarrow> (pyval \<Rightarrow> 'a option) \<Rightarrow> (string \<times> pyval) list \<Rightarrow> string \<Rightarrow> 'a option" where
  "defaulted d conv kvs k = (case map_of kvs k of None \<Rightarrow> Some d | Some v \<Rightarrow> conv v)"

definition guard :: "bool \<Rightarrow> unit option" where
  "guard b = (if b then Some () else None)"

text \<open>\<open>extra="forbid"\<close>: every key of the input names a field.\<close>

definition no_extra :: "string list \<Rightarrow> (string \<times> pyval) list \<Rightarrow> bool" where
  "no_extra names kvs = list_all (\<lambda>k. k \<in> set names) (map fst kvs)"

definition list_of :: "(pyval \<Rightarrow> 'a option) \<Rightarrow> pyval \<Rightarrow> 'a list option" where
  "list_of conv v = (case v of VList xs \<Rightarrow> those (map conv xs) | _ \<Rightarrow> None)"

definition dict_of :: "(pyval \<Rightarrow> 'a option) \<Rightarrow> pyval \<Rightarrow> (string \<times> 'a) list option" where
  "dict_of conv v =
     (case v of
        VDict kvs \<Rightarrow> map_option (zip (map fst kvs)) (those (map (\<lambda>kv. conv (snd kv)) kvs))
      | _ \<Rightarrow> None)"

definition as_guarantee :: "coercions \<Rightarrow> pyval \<Rightarrow> DeliveryGuarantee option" where
  "as_guarantee cv v =
     (case as_str cv v of
        None \<Rightarrow> None
      | Some s \<Rightarrow> find (\<lambda>g. guarantee_value g = s) [AT_MOST_ONCE, AT_LEAST_ONCE, EXACTLY_ONCE])"

text \<open>\<open>s.split(c)\<close> for a one-character separator.\<close>

fun split_on :: "char \<Rightarrow> string \<Rightarrow> string list" where
  "split_on c [] = [[]]"
| "split_on c (x # xs) =
     (if x = c then [] # split_on c xs
      else (case split_on c xs of w # ws \<Rightarrow> (x # w) # ws | [] \<Rightarrow> [[x]]))"

definition parse_budget :: "coercions \<Rightarrow> pyval \<Rightarrow> CostBudget option" where
  "parse_budget cv v =
    (case v of
       VDict kvs \<Rightarrow> do {
         _ \<leftarrow> guard (no_extra [''max_usd'', ''max_tokens'', ''used_usd'', ''used_tokens'',
                                ''model_costs''] kvs);
         max_usd \<leftarrow> required (as_float cv) kvs ''max_usd'';
         _ \<leftarrow> guard (0 \<le> max_usd);
         max_tokens \<leftarrow> required (as_int cv) kvs ''max_tokens'';
         _ \<leftarrow> guard (0 \<le> max_tokens);
         used_usd \<leftarrow> required (as_float cv) kvs ''used_usd'';
         _ \<leftarrow> guard (0 \<le> used_usd);
         used_tokens \<leftarrow> required (as_int cv) kvs ''used_tokens'';
         _ \<leftarrow> guard (0 \<le> used_tokens);
         model_costs \<leftarrow> defaulted [] (dict_of (as_float cv)) kvs ''model_costs'';
         Some \<lparr>bud_max_usd = max_usd, bud_max_tokens = max_tokens, bud_used_usd = used_usd,
               bud_used_tokens = used_tokens, bud_model_costs = model_costs\<rparr>
       }
     | _ \<Rightarrow> None)"

definition parse_limits :: "coercions \<Rightarrow> pyval \<Rightarrow> ResourceLimits option" where
  "parse_limits cv v =
    (case v of
       VDict kvs \<Rightarrow> do {
         _ \<leftarrow> guard (no_extra [''max_cpu_percent'', ''max_memory_mb'',
                                ''max_concurrent_requests'', ''max_processing_time_ms''] kvs);
         cpu \<leftarrow> required (as_int cv) kvs ''max_cpu_percent'';
         _ \<leftarrow> guard (0 \<le> cpu \<and> cpu \<le> 100);
         mem \<leftarrow> required (as_int cv) kvs ''max_memory_mb'';
         _ \<leftarrow> guard (0 \<le> mem);
         conc \<leftarrow> required (as_int cv) kvs ''max_concurrent_requests'';
         _ \<leftarrow> guard (1 \<le> conc);
         ptime \<leftarrow> required (as_int cv) kvs ''max_processing_time_ms'';
         _ \<leftarrow> guard (0 \<le> ptime);
         Some \<lparr>lim_max_cpu_percent = cpu, lim_max_memory_mb = mem,
               lim_max_concurrent_requests = conc, lim_max_processing_time_ms = ptime\<rparr>
       }
     | _ \<Rightarrow> None)"

definition context_fields :: "string list" where
  "context_fields =
    [''trace_id'', ''span_id'', ''parent_span_id'', ''baggage'', ''user_id'', ''session_id'',
     ''workspace_id'', ''request_id'', ''timeout_ms'', ''metadata'', ''budget'', ''limits'']"

definition parse_context :: "coercions \<Rightarrow> pyval \<Rightarrow> MCPContext option" where
  "parse_context cv v =
    (case v of
       VDict kvs \<Rightarrow> do {
         _ \<leftarrow> guard (no_extra context_fields kvs);
         trace_id \<leftarrow> required (as_str cv) kvs ''trace_id'';
         span_id \<leftarrow> required (as_str cv) kvs ''span_id'';
         parent_span_id \<leftarrow> optional (as_str cv) kvs ''parent_span_id'';
         baggage \<leftarrow> defaulted [] (dict_of (as_str cv)) kvs ''baggage'';
         user_id \<leftarrow> optional (as_str cv) kvs ''user_id'';
         session_id \<leftarrow> optional (as_str cv) kvs ''session_id'';
         workspace_id \<leftarrow> optional (as_str cv) kvs ''workspace_id'';
         request_id \<leftarrow> required (as_str cv) kvs ''request_id'';
         timeout_ms \<leftarrow> required (as_int cv) kvs ''timeout_ms'';
         _ \<leftarrow> guard (0 \<le> timeout_ms);
         metadata \<leftarrow> defaulted [] (dict_of (as_str cv)) kvs ''metadata'';
         budget \<leftarrow> optional (parse_budget cv) kvs ''budget'';
         limits \<leftarrow> optional (parse_limits cv) kvs ''limits'';
         Some \<lparr>ctx_trace_id = trace_id, ctx_span_id = span_id,
               ctx_parent_span_id = parent_span_id, ctx_baggage = baggage,
               ctx_user_id = user_id, ctx_session_id = session_id,
               ctx_workspace_id = workspace_id, ctx_request_id = request_id,
               ctx_timeout_ms = timeout_ms, ctx_metadata = metadata, ctx_budget = budget,
               ctx_limits = limits\<rparr>
       }
     | _ \<Rightarrow> None)"

definition delivery_fields :: "string list" where
  "delivery_fields =
    [''guarantee'', ''retry_count'', ''retry_delay_ms'', ''require_ack'', ''priority'']"

definition parse_delivery :: "coercions \<Rightarrow> pyval \<Rightarrow> DeliveryOptions option" where
  "parse_delivery cv v =
    (case v of
       VDict kvs \<Rightarrow> do {
         _ \<leftarrow> guard (no_extra delivery_fields kvs);
         guarantee \<leftarrow> required (as_guarantee cv) kvs ''guarantee'';
         retry_count \<leftarrow> required (as_int cv) kvs ''retry_count'';
         _ \<leftarrow> guard (0 \<le> retry_count \<and> retry_count \<le> 10);
         retry_delay_ms \<leftarrow> required (as_int cv) kvs ''retry_delay_ms'';
         _ \<leftarrow> guard (0 \<le> retry_delay_ms);
         require_ack \<leftarrow> required (as_bool cv) kvs ''require_ack'';
         priority \<leftarrow> required (as_int cv) kvs ''priority'';
         _ \<leftarrow> guard (0 \<le> priority \<and> priority \<le> 10);
         Some \<lparr>dlv_guarantee = guarantee, dlv_retry_count = retry_count,
               dlv_retry_delay_ms = retry_delay_ms, dlv_require_ack = require_ack,
               dlv_priority = priority\<rparr>
       }
     | _ \<Rightarrow> None)"

definition message_fields :: "string list" where
  "message_fields =
    [''id'', ''correlation_id'', ''trace_id'', ''span_id'', ''sender'', ''recipient'',
     ''message_type'', ''payload'', ''tags'', ''context'', ''delivery'', ''created_at'',
     ''expires_at'', ''security_token'', ''permissions'']"

definition required_message_fields :: "string list" where
  "required_message_fields =
    [''id'', ''trace_id'', ''span_id'', ''sender'', ''recipient'', ''message_type'',
     ''payload'', ''context'', ''delivery'', ''created_at'']"

text \<open>
  The field validator of \<open>id\<close>:
  \<^verbatim>\<open>if len(v.split('-')) != 5: raise ValueError('Invalid UUID format')\<close>
\<close>

definition validate_uuid :: "string \<Rightarrow> bool" where
  "validate_uuid v = (length (split_on (CHR ''-'') v) = 5)"

definition parse_message :: "coercions \<Rightarrow> pyval \<Rightarrow> MCPMessage option" where
  "parse_message cv data =
    (case data of
       VDict kvs \<Rightarrow> do {
         _ \<leftarrow> guard (no_extra message_fields kvs);
         ident \<leftarrow> required (as_str cv) kvs ''id'';
         _ \<leftarrow> guard (validate_uuid ident);
         correlation_id \<leftarrow> optional (as_str cv) kvs ''correlation_id'';
         trace_id \<leftarrow> required (as_str cv) kvs ''trace_id'';
         span_id \<leftarrow> required (as_str cv) kvs ''span_id'';
         sender \<leftarrow> required (as_str cv) kvs ''sender'';
         recipient \<leftarrow> required (as_str cv) kvs ''recipient'';
         message_type \<leftarrow> required (as_str cv) kvs ''message_type'';
         payload \<leftarrow> required Some kvs ''payload'';
         tags \<leftarrow> defaulted [] (list_of (as_str cv)) kvs ''tags'';
         ctx \<leftarrow> required (parse_context cv) kvs ''context'';
         delivery \<leftarrow> required (parse_delivery cv) kvs ''delivery'';
         created_at \<leftarrow> required (as_datetime cv) kvs ''created_at'';
         expires_at \<leftarrow> optional (as_datetime cv) kvs ''expires_at'';
         security_token \<leftarrow> optional (as_str cv) kvs ''security_token'';
         permissions \<leftarrow> defaulted [] (list_of (as_str cv)) kvs ''permissions'';
         Some \<lparr>msg_id = ident, msg_correlation_id = correlation_id, msg_trace_id = trace_id,
               msg_span_id = span_id, msg_sender = sender, msg_recipient = recipient,
               msg_message_type = message_type, msg_payload = payload, msg_tags = tags,
               msg_context = ctx, msg_delivery = delivery, msg_created_at = created_at,
               msg_expires_at = expires_at, msg_security_token = security_token,
               msg_permissions = permissions\<rparr>
       }
     | _ \<Rightarrow> None)"

text \<open>
  \<open>MCPValidator.validate_message\<close>: \<open>MCPMessage.model_validate(data)\<close>, which returns the
  message or raises \<open>ValidationError\<close>.
\<close>

definition validate_message :: "coercions \<Rightarrow> pyval \<Rightarrow> exn + MCPMessage" where
  "validate_message cv data =
     (case parse_message cv data of
        None \<Rightarrow> Inl (Exn ''ValidationError'' ''validation error for MCPMessage'')
      | Some m \<Rightarrow> Inr m)"
text \<open>
  Concrete inputs for the scenarios: a raw message as a peer would send it, with the
  given id, message type and priority, and the message it validates to.
\<close>

definition raw_fields :: "string \<Rightarrow> string \<Rightarrow> int \<Rightarrow> (string \<times> pyval) list" where
  "raw_fields ident mtype prio =
          [(''id'', VStr ident),
           (''trace_id'', VStr ''trace-1''),
           (''span_id'', VStr ''span-1''),
           (''sender'', VStr ''orchestrator''),
           (''recipient'', VStr ''python-bridge''),
           (''message_type'', VStr mtype),
           (''payload'', VDict [(''task_type'', VStr ''writer.compose''),
                                (''task_id'', VStr ''T''),
                                (''parameters'', VDict [])]),
           (''context'', VDict [(''trace_id'', VStr ''trace-1''),
                                (''span_id'', VStr ''span-1''),
                                (''request_id'', VStr ''req-1''),
                                (''timeout_ms'', VInt 30000)]),
           (''delivery'', VDict [(''guarantee'', VStr ''AT_LEAST_ONCE''),
                                 (''retry_count'', VInt 3),
                                 (''retry_delay_ms'', VInt 1000),
                                 (''require_ack'', VBool True),
                                 (''priority'', VInt prio)]),
           (''created_at'', VDatetime 1700000000000000)]"

definition raw_message :: "string \<Rightarrow> string \<Rightarrow> int \<Rightarrow> pyval" where
  "raw_message ident mtype prio = VDict (raw_fields ident mtype prio)"

definition typed_message :: "string \<Rightarrow> string \<Rightarrow> int \<Rightarrow> MCPMessage" where
  "typed_message ident mtype prio =
    \<lparr>msg_id = ident, msg_correlation_id = None, msg_trace_id = ''trace-1'',
     msg_span_id = ''span-1'', msg_sender = ''orchestrator'',
     msg_recipient = ''python-bridge'', msg_message_type = mtype,
     msg_payload = VDict [(''task_type'', VStr ''writer.compose''), (''task_id'', VStr ''T''),
                          (''parameters'', VDict [])],
     msg_tags = [],
     msg_context =
       \<lparr>ctx_trace_id = ''trace-1'', ctx_span_id = ''span-1'', ctx_parent_span_id = None,
        ctx_baggage = [], ctx_user_id = None, ctx_session_id = None,
        ctx_workspace_id = None, ctx_request_id = ''req-1'', ctx_timeout_ms = 30000,
        ctx_metadata = [], ctx_budget = None, ctx_limits = None\<rparr>,
     msg_delivery =
       \<lparr>dlv_guarantee = AT_LEAST_ONCE, dlv_retry_count = 3, dlv_retry_delay_ms = 1000,
        dlv_require_ack = True, dlv_priority = prio\<rparr>,
     msg_created_at = 1700000000000000, msg_expires_at = None, msg_security_token = None,
     msg_permissions = []\<rparr>"


section \<open>Transport (mcp_core/transport)\<close>

subsection \<open>Serialisation\<close>

text \<open>\<open>model_dump()\<close> in its default (Python) mode: field values are kept as Python
  objects, so a \<open>datetime\<close> field stays a \<open>datetime\<close>; an enum member is its string.\<close>

definition dump_opt :: "('a \<Rightarrow> pyval) \<Rightarrow> 'a option \<Rightarrow> pyval" where
  "dump_opt f x = (case x of None \<Rightarrow> VNone | Some y \<Rightarrow> f y)"

definition dump_str_dict :: "(string \<times> string) list \<Rightarrow> pyval" where
  "dump_str_dict kvs = VDict (map (\<lambda>kv. (fst kv, VStr (snd kv))) kvs)"

definition dump_float_dict :: "(string \<times> rat) list \<Rightarrow> pyval" where
  "dump_float_dict kvs = VDict (map (\<lambda>kv. (fst kv, VFloat (snd kv))) kvs)"

definition dump_budget :: "CostBudget \<Rightarrow> pyval" where
  "dump_budget b =
    VDict [(''max_usd'', VFloat (bud_max_usd b)), (''max_tokens'', VInt (bud_max_tokens b)),
           (''used_usd'', VFloat (bud_used_usd b)),
           (''used_tokens'', VInt (bud_used_tokens b)),
           (''model_costs'', dump_float_dict (bud_model_costs b))]"

definition dump_limits :: "ResourceLimits \<Rightarrow> pyval" where
  "dump_limits l =
    VDict [(''max_cpu_percent'', VInt (lim_max_cpu_percent l)),
           (''max_memory_mb'', VInt (lim_max_memory_mb l)),
           (''max_concurrent_requests'', VInt (lim_max_concurrent_requests l)),
           (''max_processing_time_ms'', VInt (lim_max_processing_time_ms l))]"

definition dump_context :: "MCPContext \<Rightarrow> pyval" where
  "dump_context c =
    VDict [(''trace_id'', VStr (ctx_trace_id c)), (''span_id'', VStr (ctx_span_id c)),
           (''parent_span_id'', dump_opt VStr (ctx_parent_span_id c)),
           (''baggage'', dump_str_dict (ctx_baggage c)),
           (''user_id'', dump_opt VStr (ctx_user_id c)),
           (''session_id'', dump_opt VStr (ctx_session_id c)),
           (''workspace_id'', dump_opt VStr (ctx_workspace_id c)),
           (''request_id'', VStr (ctx_request_id c)),
           (''timeout_ms'', VInt (ctx_timeout_ms c)),
           (''metadata'', dump_str_dict (ctx_metadata c)),
           (''budget'', dump_opt dump_budget (ctx_budget c)),
           (''limits'', dump_opt dump_limits (ctx_limits c))]"

definition dump_delivery :: "DeliveryOptions \<Rightarrow> pyval" where
  "dump_delivery d =
    VDict [(''guarantee'', VStr (guarantee_value (dlv_guarantee d))),
           (''retry_count'', VInt (dlv_retry_count d)),
           (''retry_delay_ms'', VInt (dlv_retry_delay_ms d)),
           (''require_ack'', VBool (dlv_require_ack d)),
           (''priority'', VInt (dlv_priority d))]"

definition model_dump :: "MCPMessage \<Rightarrow> pyval" where
  "model_dump m =
    VDict [(''id'', VStr (msg_id m)),
           (''correlation_id'', dump_opt VStr (msg_correlation_id m)),
           (''trace_id'', VStr (msg_trace_id m)), (''span_id'', VStr (msg_span_id m)),
           (''sender'', VStr (msg_sender m)), (''recipient'', VStr (msg_recipient m)),
           (''message_type'', VStr (msg_message_type m)),
           (''payload'', msg_payload m),
           (''tags'', VList (map VStr (msg_tags m))),
           (''context'', dump_context (msg_context m)),
           (''delivery'', dump_delivery (msg_delivery m)),
           (''created_at'', VDatetime (msg_created_at m)),
           (''expires_at'', dump_opt VDatetime (msg_expires_at m)),
           (''security_token'', dump_opt VStr (msg_security_token m)),
           (''permissions'', VList (map VStr (msg_permissions m)))]"

definition dump_metrics :: "TaskMetrics \<Rightarrow> pyval" where
  "dump_metrics t =
    VDict [(''processing_time_ms'', VInt (met_processing_time_ms t)),
           (''queue_time_ms'', VInt (met_queue_time_ms t)),
           (''retry_count'', VInt (met_retry_count t)),
           (''cost_usd'', VFloat (met_cost_usd t)),
           (''tokens_used'', VInt (met_tokens_used t)),
           (''model_used'', dump_opt VStr (met_model_used t)),
           (''custom_metrics'', dump_float_dict (met_custom_metrics t))]"

definition dump_task_response :: "TaskResponse \<Rightarrow> pyval" where
  "dump_task_response r =
    VDict [(''task_id'', VStr (rsp_task_id r)),
           (''status'', VStr (status_value (rsp_status r))),
           (''result'', dump_opt (\<lambda>v. v) (rsp_result r)),
           (''error_message'', dump_opt VStr (rsp_error_message r)),
           (''error_code'', dump_opt VStr (rsp_error_code r)),
           (''metrics'', dump_metrics (rsp_metrics r)),
           (''warnings'', VList (map VStr (rsp_warnings r)))]"

text \<open>
  \<open>msgpack.packb(obj, use_bin_type=True)\<close>, called with no \<open>default\<close> hook and without
  \<open>datetime=True\<close>: the packer serialises \<open>None\<close>, booleans, integers of at most 64 bits,
  floats, strings, lists and dictionaries, and raises for any other object; a
  \<open>datetime\<close> is such an object. \<open>pack_error\<close> is the exception the packer raises, if
  any; the bytes it produces otherwise are the codec's.
\<close>

fun pack_error :: "pyval \<Rightarrow> exn option"
  and pack_error_list :: "pyval list \<Rightarrow> exn option"
  and pack_error_items :: "(string \<times> pyval) list \<Rightarrow> exn option" where
  "pack_error VNone = None"
| "pack_error (VBool b) = None"
| "pack_error (VInt i) =
     (if - (2 ^ 63) \<le> i \<and> i < 2 ^ 64 then None
      else Some (Exn ''OverflowError'' ''Integer value out of range''))"
| "pack_error (VFloat r) = None"
| "pack_error (VStr s) = None"
| "pack_error (VDatetime t) =
     Some (Exn ''TypeError''
             (''can not serialize '' @ [CHR 0x27] @ ''datetime.datetime'' @ [CHR 0x27]
                @ '' object''))"
| "pack_error (VList xs) = pack_error_list xs"
| "pack_error (VDict kvs) = pack_error_items kvs"
| "pack_error_list [] = None"
| "pack_error_list (x # xs) =
     (case pack_error x of Some e \<Rightarrow> Some e | None \<Rightarrow> pack_error_list xs)"
| "pack_error_items [] = None"
| "pack_error_items (kv # kvs) =
     (case pack_error (snd kv) of Some e \<Rightarrow> Some e | None \<Rightarrow> pack_error_items kvs)"

record codec =
  mp_encode :: "pyval \<Rightarrow> 8 word list"
  mp_decode :: "8 word list \<Rightarrow> pyval option"

definition packb :: "codec \<Rightarrow> pyval \<Rightarrow> exn + 8 word list" where
  "packb cd v = (case pack_error v of Some e \<Rightarrow> Inl e | None \<Rightarrow> Inr (mp_encode cd v))"

text \<open>\<open>msgpack.unpackb(data, raw=False)\<close>.\<close>

definition unpackb :: "codec \<Rightarrow> 8 word list \<Rightarrow> exn + pyval" where
  "unpackb cd data =
     (case mp_decode cd data of
        None \<Rightarrow> Inl (Exn ''UnpackException'' ''unpack failed'')
      | Some v \<Rightarrow> Inr v)"

text \<open>Decimal digits of a number, for the messages; \<open>struct.pack('!I', n)\<close>.\<close>

fun digits :: "nat \<Rightarrow> nat \<Rightarrow> string" where
  "digits 0 n = []"
| "digits (Suc fuel) n =
     (if n < 10 then [char_of (48 + n)]
      else digits fuel (n div 10) @ [char_of (48 + n mod 10)])"

definition str_nat :: "nat \<Rightarrow> string" where
  "str_nat n = digits (Suc n) n"

definition pack_length :: "nat \<Rightarrow> exn + 8 word list" where
  "pack_length n =
     (if n < 2 ^ 32
      then Inr [of_nat (n div 2 ^ 24), of_nat (n div 2 ^ 16), of_nat (n div 2 ^ 8), of_nat n]
      else Inl (Exn ''struct.error'' ''argument out of range''))"

subsection \<open>Connections\<close>

record connection =
  conn_client_id :: string
  conn_max_message_size :: nat
  conn_enable_validation :: bool

text \<open>\<open>message.context.baggage.update(carrier)\<close>.\<close>

definition dict_update :: "('k \<times> 'v) list \<Rightarrow> ('k \<times> 'v) list \<Rightarrow> ('k \<times> 'v) list" where
  "dict_update d carrier = fold (\<lambda>kv acc. dict_set (fst kv) (snd kv) acc) carrier d"

definition transport_error :: "exn \<Rightarrow> exn" where
  "transport_error e =
     Exn ''UnixSocketTransportError'' (''Failed to send message: '' @ exn_str e)"

text \<open>
  \<open>UnixSocketConnection.send_message\<close>. \<open>carrier\<close> is what the tracing library injects.
  The result is the frame written to the stream, or the \<open>UnixSocketTransportError\<close> that
  wraps whatever was raised on the way; nothing is written in that case.
\<close>

definition conn_send_message ::
  "coercions \<Rightarrow> codec \<Rightarrow> connection \<Rightarrow> (string \<times> string) list \<Rightarrow> MCPMessage
     \<Rightarrow> exn + 8 word list" where
  "conn_send_message cv cd conn carrier message =
    (case (if conn_enable_validation conn then validate_message cv (model_dump message)
           else Inr message) of
       Inl e \<Rightarrow> Inl (transport_error e)
     | Inr _ \<Rightarrow>
        (let message1 = message\<lparr>msg_context := (msg_context message)
                 \<lparr>ctx_baggage := dict_update (ctx_baggage (msg_context message)) carrier\<rparr>\<rparr>
         in case packb cd (model_dump message1) of
              Inl e \<Rightarrow> Inl (transport_error e)
            | Inr data \<Rightarrow>
                if length data > conn_max_message_size conn then
                  Inl (transport_error (Exn ''UnixSocketTransportError''
                         (''Message too large: '' @ str_nat (length data) @ '' bytes'')))
                else
                  (case pack_length (length data) of
                     Inl e \<Rightarrow> Inl (transport_error e)
                   | Inr length_header \<Rightarrow> Inr (length_header @ data))))"

text \<open>The body of a received frame: unpacked, then validated (on either setting of
  \<open>enable_validation\<close> the message is built by \<open>model_validate\<close>).\<close>

definition receive_body :: "coercions \<Rightarrow> codec \<Rightarrow> 8 word list \<Rightarrow> exn + MCPMessage" where
  "receive_body cv cd message_data =
     (case unpackb cd message_data of
        Inl e \<Rightarrow> Inl e
      | Inr raw \<Rightarrow> validate_message cv raw)"

subsection \<open>Server\<close>

text \<open>
  The server: its connected clients in connection order, and the message handler, which
  returns normally (\<open>None\<close>) or raises. The handler is taken to leave the message object
  it is given as it is.
\<close>

record server =
  srv_clients :: "(string \<times> connection) list"
  srv_handler :: "(MCPMessage \<Rightarrow> exn option) option"

text \<open>
  \<open>_create_error_response\<close>. The \<open>TaskResponse\<close> is built from values of the right types;
  building the \<open>MCPMessage\<close> runs the validator of \<open>id\<close> on \<open>"error_" + original id\<close>.
\<close>

definition error_task_response :: "MCPMessage \<Rightarrow> string \<Rightarrow> string \<Rightarrow> TaskResponse" where
  "error_task_response original_message error_message error_code =
    \<lparr>rsp_task_id = (case msg_correlation_id original_message of
                       None \<Rightarrow> msg_id original_message
                     | Some c \<Rightarrow> if c \<noteq> [] then c else msg_id original_message),
     rsp_status = FAILED, rsp_result = None, rsp_error_message = Some error_message,
     rsp_error_code = Some error_code,
     rsp_metrics = \<lparr>met_processing_time_ms = 0, met_queue_time_ms = 0, met_retry_count = 0,
                     met_cost_usd = 0, met_tokens_used = 0, met_model_used = None,
                     met_custom_metrics = []\<rparr>,
     rsp_warnings = []\<rparr>"

definition create_error_response :: "MCPMessage \<Rightarrow> string \<Rightarrow> string \<Rightarrow> exn + MCPMessage" where
  "create_error_response original_message error_message error_code =
    (if validate_uuid (''error_'' @ msg_id original_message) then
       Inr \<lparr>msg_id = ''error_'' @ msg_id original_message,
            msg_correlation_id = Some (msg_id original_message),
            msg_trace_id = msg_trace_id original_message,
            msg_span_id = msg_span_id original_message,
            msg_sender = msg_recipient original_message,
            msg_recipient = msg_sender original_message,
            msg_message_type = ''TASK_RESPONSE'',
            msg_payload = dump_task_response
                            (error_task_response original_message error_message error_code),
            msg_tags = [''error''],
            msg_context = msg_context original_message,
            msg_delivery = msg_delivery original_message,
            msg_created_at = msg_created_at original_message,
            msg_expires_at = None, msg_security_token = None, msg_permissions = []\<rparr>
     else Inl (Exn ''ValidationError'' ''validation error for MCPMessage''))"

text \<open>
  The server's \<open>send_message\<close>: to one client when \<open>client_id\<close> is a non-empty string,
  to every client otherwise. The result lists the frames written, each with the client
  it went to; a broadcast logs the sends that fail and does not raise.
\<close>

fun broadcast ::
  "coercions \<Rightarrow> codec \<Rightarrow> (string \<times> string) list \<Rightarrow> MCPMessage \<Rightarrow> (string \<times> connection) list
     \<Rightarrow> (string \<times> 8 word list) list" where
  "broadcast cv cd carrier message [] = []"
| "broadcast cv cd carrier message (c # cs) =
     (case conn_send_message cv cd (snd c) carrier message of
        Inl e \<Rightarrow> broadcast cv cd carrier message cs
      | Inr frame \<Rightarrow> (fst c, frame) # broadcast cv cd carrier message cs)"

definition server_send_message ::
  "coercions \<Rightarrow> codec \<Rightarrow> server \<Rightarrow> (string \<times> string) list \<Rightarrow> MCPMessage \<Rightarrow> string
     \<Rightarrow> exn + (string \<times> 8 word list) list" where
  "server_send_message cv cd srv carrier message client_id =
    (if client_id \<noteq> [] then
       (case map_of (srv_clients srv) client_id of
          None \<Rightarrow> Inl (Exn ''UnixSocketTransportError''
                        (''Client '' @ client_id @ '' not found''))
        | Some client \<Rightarrow>
            (case conn_send_message cv cd client carrier message of
               Inl e \<Rightarrow> Inl e
             | Inr frame \<Rightarrow> Inr [(client_id, frame)]))
     else Inr (broadcast cv cd carrier message (srv_clients srv)))"

text \<open>
  \<open>_dispatch_message\<close>. The client id is written into the message's context metadata,
  the handler is called, and when it raises on a \<open>TASK_REQUEST\<close> the error response is
  built and sent to the client; an exception raised while doing that leaves
  \<open>_dispatch_message\<close>.
\<close>

definition annotate_client :: "MCPMessage \<Rightarrow> string \<Rightarrow> MCPMessage" where
  "annotate_client message client_id =
     message\<lparr>msg_context := (msg_context message)
       \<lparr>ctx_metadata := dict_set ''client_id'' client_id
                          (ctx_metadata (msg_context message))\<rparr>\<rparr>"

definition dispatch_message ::
  "coercions \<Rightarrow> codec \<Rightarrow> server \<Rightarrow> (string \<times> string) list \<Rightarrow> MCPMessage \<Rightarrow> string
     \<Rightarrow> exn + (string \<times> 8 word list) list" where
  "dispatch_message cv cd srv carrier message client_id =
    (case srv_handler srv of
       None \<Rightarrow> Inr []
     | Some handler \<Rightarrow>
        (let message1 = annotate_client message client_id in
         case handler message1 of
           None \<Rightarrow> Inr []
         | Some e \<Rightarrow>
             if msg_message_type message1 \<in> set [''TASK_REQUEST''] then
               (case create_error_response message1 (exn_str e) INTERNAL_ERROR of
                  Inl e' \<Rightarrow> Inl e'
                | Inr error_response \<Rightarrow>
                    server_send_message cv cd srv carrier error_response client_id)
             else Inr []))"

text \<open>Concrete parts for the scenarios.\<close>

definition demo_codec :: codec where
  "demo_codec = \<lparr>mp_encode = (\<lambda>v. []), mp_decode = (\<lambda>bs. None)\<rparr>"

definition demo_connection :: connection where
  "demo_connection = \<lparr>conn_client_id = ''client_1'', conn_max_message_size = 10485760,
                        conn_enable_validation = True\<rparr>"

definition demo_server :: server where
  "demo_server = \<lparr>srv_clients = [(''client_1'', demo_connection)],
                    srv_handler = Some (\<lambda>m. Some (Exn ''RuntimeError'' ''boom''))\<rparr>"

definition demo_uuid :: string where
  "demo_uuid = ''123e4567-e89b-42d3-a456-426614174000''"
definition demo_error_response :: MCPMessage where
  "demo_error_response =
    \<lparr>msg_id = ''error_123e4567-e89b-42d3-a456-426614174000'',
     msg_correlation_id = Some ''123e4567-e89b-42d3-a456-426614174000'',
     msg_trace_id = ''trace-1'', msg_span_id = ''span-1'',
     msg_sender = ''python-bridge'', msg_recipient = ''orchestrator'',
     msg_message_type = ''TASK_RESPONSE'',
     msg_payload =
       VDict [(''task_id'', VStr ''123e4567-e89b-42d3-a456-426614174000''),
              (''status'', VStr ''FAILED''), (''result'', VNone),
              (''error_message'', VStr ''boom''), (''error_code'', VStr ''INTERNAL_ERROR''),
              (''metrics'',
                 VDict [(''processing_time_ms'', VInt 0), (''queue_time_ms'', VInt 0),
                        (''retry_count'', VInt 0), (''cost_usd'', VFloat 0),
                        (''tokens_used'', VInt 0), (''model_used'', VNone),
                        (''custom_metrics'', VDict [])]),
              (''warnings'', VList [])],
     msg_tags = [''error''],
     msg_context =
       \<lparr>ctx_trace_id = ''trace-1'', ctx_span_id = ''span-1'', ctx_parent_span_id = None,
        ctx_baggage = [], ctx_user_id = None, ctx_session_id = None,
        ctx_workspace_id = None, ctx_request_id = ''req-1'', ctx_timeout_ms = 30000,
        ctx_metadata = [(''client_id'', ''client_1'')], ctx_budget = None,
        ctx_limits = None\<rparr>,
     msg_delivery =
       \<lparr>dlv_guarantee = AT_LEAST_ONCE, dlv_retry_count = 3, dlv_retry_delay_ms = 1000,
        dlv_require_ack = True, dlv_priority = 5\<rparr>,
     msg_created_at = 1700000000000000, msg_expires_at = None, msg_security_token = None,
     msg_permissions = []\<rparr>"


section \<open>Bridge (mcp_core/bridge/python_bridge.py)\<close>

text \<open>
  The bridge builds its messages as \<open>MCPMessage(id=, type=, source=, target=, payload=,
  correlation_id=, timestamp=)\<close> and reads \<open>message.type\<close>, \<open>message.source\<close>,
  \<open>message.payload\<close> and \<open>message.id\<close> of the messages it receives. These are not the
  fields of the schema's \<open>MCPMessage\<close>; the record below is the message as the bridge
  writes and reads it.
\<close>

record envelope =
  env_id :: string
  env_type :: string
  env_source :: string
  env_target :: string
  env_payload :: pyval
  env_correlation_id :: "string option"
  env_timestamp :: int

text \<open>The keyword arguments of such a constructor call.\<close>

definition envelope_kwargs :: "envelope \<Rightarrow> (string \<times> pyval) list" where
  "envelope_kwargs e =
    [(''id'', VStr (env_id e)), (''type'', VStr (env_type e)),
     (''source'', VStr (env_source e)), (''target'', VStr (env_target e)),
     (''payload'', env_payload e)]
    @ (case env_correlation_id e of None \<Rightarrow> [] | Some c \<Rightarrow> [(''correlation_id'', VStr c)])
    @ [(''timestamp'', VDatetime (env_timestamp e))]"

text \<open>
  Building a message and passing it to \<open>_send_message\<close> is a parameter of the bridge
  functions: it returns the exception raised, if any, and the message is on the wire
  when there is none. \<open>schema_emit\<close> is what the code does with the schema of this
  repository: the constructor validates the keyword arguments, then \<open>_send_message\<close>
  packs \<open>message.dict()\<close> and wraps what the packer raises.
\<close>

definition schema_emit :: "coercions \<Rightarrow> codec \<Rightarrow> envelope \<Rightarrow> exn option" where
  "schema_emit cv cd e =
     (case validate_message cv (VDict (envelope_kwargs e)) of
        Inl err \<Rightarrow> Some err
      | Inr m \<Rightarrow>
          (case packb cd (model_dump m) of
             Inl err \<Rightarrow> Some (Exn ''TransportError'' (''Message send failed: '' @ exn_str err))
           | Inr packed_data \<Rightarrow> None))"


text \<open>
  What \<open>execute_task\<close> of an agent returns: an instance of the schema's \<open>TaskResponse\<close>, as
  the signature says, or an object of some other class, given by its attributes, that
  accepts new attributes and has a \<open>dict()\<close> method returning them.
\<close>

datatype response_obj = SchemaResponse TaskResponse | PlainResponse "(string \<times> pyval) list"

text \<open>
  \<open>obj.name = value\<close>: a pydantic model refuses a name that is not one of its fields
  (\<open>ValueError\<close>); \<open>execution_time\<close> and \<open>agent_name\<close> are no fields of \<open>TaskResponse\<close>.
\<close>

definition response_fields :: "string list" where
  "response_fields = [''task_id'', ''status'', ''result'', ''error_message'', ''error_code'',
                      ''metrics'', ''warnings'']"

definition set_attribute :: "response_obj \<Rightarrow> string \<Rightarrow> pyval \<Rightarrow> exn + response_obj" where
  "set_attribute obj name v =
    (case obj of
       PlainResponse attrs \<Rightarrow> Inr (PlainResponse (dict_set name v attrs))
     | SchemaResponse r \<Rightarrow>
         if name \<in> set response_fields
         then Inr (SchemaResponse r)
         else Inl (Exn ''ValueError''
                     ([CHR 0x22] @ ''TaskResponse'' @ [CHR 0x22] @ '' object has no field ''
                        @ [CHR 0x22] @ name @ [CHR 0x22])))"

definition response_dict :: "response_obj \<Rightarrow> pyval" where
  "response_dict obj =
    (case obj of PlainResponse attrs \<Rightarrow> VDict attrs
               | SchemaResponse r \<Rightarrow> dump_task_response r)"

text \<open>A registered agent: its name and its two coroutines, which return or raise.\<close>

record agent =
  agt_name :: string
  agt_can_handle_task :: "TaskRequest \<Rightarrow> exn + bool"
  agt_execute_task :: "TaskRequest \<Rightarrow> exn + response_obj"

text \<open>
  \<open>PythonAgent.can_handle_task\<close>, which subclasses may override, reads
  \<open>task_request.context\<close>; \<open>TaskRequest\<close> has no such field.
\<close>

definition base_can_handle_task :: "TaskRequest \<Rightarrow> exn + bool" where
  "base_can_handle_task task_request =
     Inl (Exn ''AttributeError''
            ([CHR 0x27] @ ''TaskRequest'' @ [CHR 0x27] @ '' object has no attribute ''
               @ [CHR 0x27] @ ''context'' @ [CHR 0x27]))"

text \<open>
  An entry of the active-tasks map: the execution activity created for a task, given by
  the arguments of \<open>_execute_agent_task\<close>.
\<close>

record activity =
  act_agent :: agent
  act_request :: TaskRequest
  act_response_target :: string
  act_correlation_id :: string

text \<open>
  The bridge: the registered agents in registration order, the active-tasks map, the
  counter of executed tasks, and the messages sent so far, oldest first.
\<close>

record bridge =
  br_registered_agents :: "(string \<times> agent) list"
  br_active_tasks :: "string \<rightharpoonup> activity"
  br_tasks_executed :: nat
  br_wire :: "envelope list"

text \<open>Sending: the message is appended to the wire unless building or sending raises.\<close>

definition bridge_send :: "(envelope \<Rightarrow> exn option) \<Rightarrow> bridge \<Rightarrow> envelope \<Rightarrow> exn option \<times> bridge" where
  "bridge_send emit s e =
     (case emit e of
        Some err \<Rightarrow> (Some err, s)
      | None \<Rightarrow> (None, s\<lparr>br_wire := br_wire s @ [e]\<rparr>))"

definition task_response_envelope ::
  "string \<Rightarrow> int \<Rightarrow> string \<Rightarrow> (string \<times> pyval) list \<Rightarrow> string \<Rightarrow> envelope" where
  "task_response_envelope ident now target payload correlation_id =
    \<lparr>env_id = ident, env_type = ''task_response'', env_source = ''python-bridge'',
     env_target = target, env_payload = VDict payload,
     env_correlation_id = Some correlation_id, env_timestamp = now\<rparr>"



text \<open>
  \<open>_execute_agent_task\<close>. The \<open>except\<close> branch builds and sends the failed response and
  does nothing else; an exception raised in it leaves the coroutine (second component).
\<close>

definition send_task_error ::
  "(envelope \<Rightarrow> exn option) \<Rightarrow> (nat \<Rightarrow> string) \<Rightarrow> (nat \<Rightarrow> int) \<Rightarrow> bridge \<Rightarrow> agent \<Rightarrow> TaskRequest
     \<Rightarrow> string \<Rightarrow> string \<Rightarrow> exn \<Rightarrow> bridge \<times> exn option" where
  "send_task_error emit uid clk s ag task_request response_target correlation_id e =
    (case TaskStatus_attr ''FAILED'' of
       Inl e' \<Rightarrow> (s, Some e')
     | Inr st \<Rightarrow>
        (case bridge_send emit s
                (task_response_envelope (uid 2) (clk 4) response_target
                   [(''task_id'', VStr (req_task_id task_request)),
                    (''status'', VStr (status_value st)),
                    (''error'', VStr (exn_str e)),
                    (''agent'', VStr (agt_name ag))]
                   correlation_id) of
           (err, s1) \<Rightarrow> (s1, err)))"

definition execute_agent_task ::
  "(envelope \<Rightarrow> exn option) \<Rightarrow> (nat \<Rightarrow> string) \<Rightarrow> (nat \<Rightarrow> int) \<Rightarrow> bridge \<Rightarrow> agent \<Rightarrow> TaskRequest
     \<Rightarrow> string \<Rightarrow> string \<Rightarrow> bridge \<times> exn option" where
  "execute_agent_task emit uid clk s ag task_request response_target correlation_id =
    (case TaskStatus_attr ''RUNNING'' of
       Inl e \<Rightarrow> send_task_error emit uid clk s ag task_request response_target correlation_id e
     | Inr st \<Rightarrow>
        (case bridge_send emit s
                (task_response_envelope (uid 0) (clk 0) response_target
                   [(''task_id'', VStr (req_task_id task_request)),
                    (''status'', VStr (status_value st)),
                    (''agent'', VStr (agt_name ag))]
                   correlation_id) of
           (Some e, s1) \<Rightarrow>
             send_task_error emit uid clk s1 ag task_request response_target correlation_id e
         | (None, s1) \<Rightarrow>
            (case agt_execute_task ag task_request of
               Inl e \<Rightarrow>
                 send_task_error emit uid clk s1 ag task_request response_target
                   correlation_id e
             | Inr task_response \<Rightarrow>
                (case set_attribute task_response ''execution_time''
                        (VFloat (of_int (clk 2 - clk 1) / 1000000)) of
                   Inl e \<Rightarrow>
                     send_task_error emit uid clk s1 ag task_request response_target
                       correlation_id e
                 | Inr r1 \<Rightarrow>
                    (case set_attribute r1 ''agent_name'' (VStr (agt_name ag)) of
                       Inl e \<Rightarrow>
                         send_task_error emit uid clk s1 ag task_request response_target
                           correlation_id e
                     | Inr r2 \<Rightarrow>
                        (case bridge_send emit s1
                                \<lparr>env_id = uid 1, env_type = ''task_response'',
                                 env_source = ''python-bridge'',
                                 env_target = response_target,
                                 env_payload = response_dict r2,
                                 env_correlation_id = Some correlation_id,
                                 env_timestamp = clk 3\<rparr> of
                           (Some e, s2) \<Rightarrow>
                             send_task_error emit uid clk s2 ag task_request
                               response_target correlation_id e
                         | (None, s2) \<Rightarrow>
                             (s2\<lparr>br_tasks_executed := br_tasks_executed s2 + 1,
                                 br_active_tasks :=
                                   (br_active_tasks s2)(req_task_id task_request := None)\<rparr>,
                              None)))))))"













section \<open>Agent manager: performance (cartrita_core/agent_manager.py)\<close>

subsection \<open>Floating point\<close>

text \<open>
  Python floats are IEEE 754 binary64 numbers. A finite one is modelled as the real it
  denotes, and an arithmetic operation as the exact operation followed by rounding to
  the nearest binary64 number, ties to even: 53 significant bits, subnormal numbers
  below \<open>2\<^sup>-\<^sup>1\<^sup>0\<^sup>2\<^sup>2\<close>. A result that rounds to \<open>2\<^sup>1\<^sup>0\<^sup>2\<^sup>4\<close> or more is the infinity.
\<close>

definition rne :: "real \<Rightarrow> int" where
  "rne x = (let f = \<lfloor>x\<rfloor>; r = x - of_int f
            in if r < 1 / 2 then f else if 1 / 2 < r then f + 1
               else if even f then f else f + 1)"

definition expo :: "real \<Rightarrow> int" where
  "expo x = max \<lfloor>log 2 x\<rfloor> (- 1022)"

definition ulp :: "real \<Rightarrow> real" where
  "ulp x = 2 powi (expo x - 52)"

definition fl :: "real \<Rightarrow> real" where
  "fl x = (if x = 0 then 0
           else if 0 < x then of_int (rne (x / ulp x)) * ulp x
           else - (of_int (rne (- x / ulp (- x))) * ulp (- x)))"

definition fmul :: "real \<Rightarrow> real \<Rightarrow> real" where
  "fmul x y = fl (x * y)"

definition fadd :: "real \<Rightarrow> real \<Rightarrow> real" where
  "fadd x y = fl (x + y)"

definition fsub :: "real \<Rightarrow> real \<Rightarrow> real" where
  "fsub x y = fl (x - y)"

definition overflows :: "real \<Rightarrow> bool" where
  "overflows x = (2 ^ 1024 \<le> \<bar>fl x\<bar>)"

subsection \<open>Performance records\<close>

text \<open>
  The entry of \<open>agent_performance\<close> that \<open>create_agent\<close> makes. The success rate is a
  finite float (it is shown to stay in the unit interval, so that no operation on it
  overflows); the average response time is \<open>None\<close> once it has overflowed to infinity.
\<close>

record performance =
  tasks_completed :: nat
  success_rate :: real
  average_response_time :: "real option"
  last_active :: string

text \<open>The fields of a \<open>CartritaResponse\<close> that the update reads: the truth value of
  \<open>success\<close> and the integer \<open>execution_time_ms\<close>.\<close>

record CartritaResponse =
  cr_success :: bool
  cr_execution_time_ms :: int

definition initial_performance :: "string \<Rightarrow> performance" where
  "initial_performance now =
     \<lparr>tasks_completed = 0, success_rate = 1, average_response_time = Some 0,
      last_active = now\<rparr>"

text \<open>
  \<open>create_agent\<close>, as far as the performance map goes: a duplicate id raises, a new id
  gets the initial record. \<open>self.agents\<close>, on which the test is made, and
  \<open>self.agent_performance\<close> are written and cleared together and have the same keys.
\<close>

definition create_agent ::
  "(string \<rightharpoonup> performance) \<Rightarrow> string \<Rightarrow> string \<Rightarrow> (string \<rightharpoonup> performance) \<times> exn option" where
  "create_agent perf agent_id now =
     (if agent_id \<in> dom perf
      then (perf, Some (Exn ''ValueError'' (''Agent '' @ agent_id @ '' already exists'')))
      else (perf(agent_id \<mapsto> initial_performance now), None))"

text \<open>\<open>shutdown_agent\<close> and \<open>shutdown_all\<close> delete the records.\<close>

definition shutdown_agent :: "(string \<rightharpoonup> performance) \<Rightarrow> string \<Rightarrow> (string \<rightharpoonup> performance)" where
  "shutdown_agent perf agent_id = (if agent_id \<in> dom perf then perf(agent_id := None) else perf)"

definition shutdown_all :: "(string \<rightharpoonup> performance) \<Rightarrow> (string \<rightharpoonup> performance)" where
  "shutdown_all perf = Map.empty"

text \<open>The literal \<open>0.1\<close> and the value of \<open>1 - alpha\<close>.\<close>

definition alpha :: real where
  "alpha = fl (1 / 10)"

definition one_minus_alpha :: real where
  "one_minus_alpha = fsub 1 alpha"

text \<open>
  \<open>_update_agent_performance\<close>:
  \<^verbatim>\<open>perf["tasks_completed"] += 1
  perf["last_active"] = datetime.now().isoformat()
  alpha = 0.1
  current_success = 1.0 if response.success else 0.0
  perf["success_rate"] = alpha * current_success + (1 - alpha) * perf["success_rate"]
  if response.execution_time_ms > 0:
      perf["average_response_time"] = (alpha * response.execution_time_ms +
          (1 - alpha) * perf["average_response_time"])\<close>
  In the last statement the integer is converted to a float first; one that rounds to
  \<open>2\<^sup>1\<^sup>0\<^sup>2\<^sup>4\<close> or more makes the product raise \<open>OverflowError\<close>, after the success
  rate has been stored. The two products of that statement are smaller than their
  second factors; the sum may overflow, and an infinite average stays infinite.
\<close>

definition update_success_rate :: "real \<Rightarrow> bool \<Rightarrow> real" where
  "update_success_rate rate ok =
     fadd (fmul alpha (if ok then 1 else 0)) (fmul one_minus_alpha rate)"

definition update_average :: "real option \<Rightarrow> int \<Rightarrow> real option" where
  "update_average avg t =
     (case avg of
        None \<Rightarrow> None
      | Some v \<Rightarrow>
          (let x = fmul alpha (fl (of_int t)) + fmul one_minus_alpha v
           in if overflows x then None else Some (fl x)))"

definition update_performance ::
  "performance \<Rightarrow> CartritaResponse \<Rightarrow> string \<Rightarrow> performance \<times> exn option" where
  "update_performance p r now =
    (let p1 = p\<lparr>tasks_completed := tasks_completed p + 1, last_active := now,
                 success_rate := update_success_rate (success_rate p) (cr_success r)\<rparr>
     in if cr_execution_time_ms r > 0 then
          if overflows (of_int (cr_execution_time_ms r))
          then (p1, Some (Exn ''OverflowError'' ''int too large to convert to float''))
          else (p1\<lparr>average_response_time :=
                     update_average (average_response_time p) (cr_execution_time_ms r)\<rparr>,
                None)
        else (p1, None))"

definition update_agent_performance ::
  "(string \<rightharpoonup> performance) \<Rightarrow> string \<Rightarrow> CartritaResponse \<Rightarrow> string
     \<Rightarrow> (string \<rightharpoonup> performance) \<times> exn option" where
  "update_agent_performance perf agent_id r now =
    (case perf agent_id of
       None \<Rightarrow> (perf, None)
     | Some p \<Rightarrow> (case update_performance p r now of
                    (p', err) \<Rightarrow> (perf(agent_id \<mapsto> p'), err)))"

text \<open>A worker's record after a sequence of updates, each with its response and the
  clock reading.\<close>

fun apply_updates :: "performance \<Rightarrow> (CartritaResponse \<times> string) list \<Rightarrow> performance" where
  "apply_updates p [] = p"
| "apply_updates p (u # rest) = apply_updates (fst (update_performance p (fst u) (snd u))) rest"

text \<open>
  A history of the manager, from the empty maps it starts with: agents created (the
  default agents among them), performance updates, and shutdowns, in any order. An
  exception raised by an operation leaves the state the operation had reached.
\<close>

datatype manager_op =
    Create string string
  | Update string CartritaResponse string
  | Shutdown string
  | ShutdownAll

fun apply_op :: "(string \<rightharpoonup> performance) \<Rightarrow> manager_op \<Rightarrow> (string \<rightharpoonup> performance)" where
  "apply_op perf (Create agent_id now) = fst (create_agent perf agent_id now)"
| "apply_op perf (Update agent_id r now) = fst (update_agent_performance perf agent_id r now)"
| "apply_op perf (Shutdown agent_id) = shutdown_agent perf agent_id"
| "apply_op perf ShutdownAll = shutdown_all perf"

definition run_manager :: "manager_op list \<Rightarrow> (string \<rightharpoonup> performance)" where
  "run_manager ops = foldl apply_op Map.empty ops"

text \<open>The success rate of a worker after a history, \<open>None\<close> when it has no record.\<close>

definition rate_after :: "manager_op list \<Rightarrow> string \<Rightarrow> real option" where
  "rate_after ops agent_id = map_option success_rate (run_manager ops agent_id)"

definition in_unit_interval :: "real option \<Rightarrow> bool" where
  "in_unit_interval x = (case x of None \<Rightarrow> True | Some r \<Rightarrow> 0 \<le> r \<and> r \<le> 1)"


section \<open>Properties\<close>

subsection \<open>Strings\<close>

lemma lower_char_idem: "lower_char (lower_char c) = lower_char c"
proof -
  have "of_char (char_of (of_char c + 32 :: nat)) = (of_char c + 32 :: nat)"
    if "(of_char c :: nat) \<le> 90"
    using that by simp
  then show ?thesis
    by (auto simp: lower_char_def Let_def)
qed

lemma lower_idem: "lower (lower s) = lower s"
  by (simp add: lower_def lower_char_idem)

lemma any_keyword_iff: "any_keyword kws s \<longleftrightarrow> (\<exists>kw \<in> set kws. sublist kw s)"
  by (simp add: any_keyword_def list_ex_iff)

subsection \<open>Task types\<close>

text \<open>
  C6. The specification: for every string \<open>s\<close>, is-valid-task-type(\<open>s\<close>) is true iff \<open>s\<close>
  is one of the enumerated task-type strings. The code looks the upper-cased string,
  dots replaced by underscores, up among the \<^emph>\<open>names\<close> of the constants instead of
  comparing it with their values: the declared task type
  \<open>huggingface.text.generation\<close> (constant \<open>HF_TEXT_GENERATION\<close>) is rejected, and the
  string \<open>hf.text.generation\<close>, which is no task type, is accepted.
\<close>

theorem is_valid_task_type_confuses_names_and_values:
  "''huggingface.text.generation'' \<in> supported_task_types
   \<and> \<not> is_valid_task_type ''huggingface.text.generation''
   \<and> ''hf.text.generation'' \<notin> supported_task_types
   \<and> is_valid_task_type ''hf.text.generation''"
  by code_simp

subsection \<open>Routing\<close>

lemma route_task_default: "route_task description \<in> default_agent_ids"
  by (simp add: route_task_def default_agent_ids_def supervisor_agent_id_def Let_def)

lemma route_task_spec:
  "route_task description =
     (case find (\<lambda>(kws, w). \<exists>kw \<in> set kws. sublist kw (lower description))
                spec_keyword_groups of
        Some (kws, w) \<Rightarrow> w | None \<Rightarrow> ''supervisor_cartrita_v2'')"
  unfolding route_task_def requires_computer_use_def Let_def lower_idem any_keyword_iff
    spec_keyword_groups_def computer_keywords_def supervisor_agent_id_def
  by simp

lemma dom_default_pool: "dom default_pool = default_agent_ids"
  by (auto simp: default_pool_def default_agent_ids_def dom_map_of_conv_image_fst)

text \<open>
  C1 as stated fails for a preferred id that is the empty string: \<open>preferred_agent and
  ...\<close> treats it like an absent one, also when a worker with that id is in the pool.
  The description matches no keyword, so the supervisor is chosen instead.
\<close>

theorem empty_preferred_id_not_chosen:
  "default_agent_ids \<subseteq> dom pool_with_empty_id \<and> '''' \<in> dom pool_with_empty_id
   \<and> assign_agent pool_with_empty_id (Some '''') ''Summarize my week''
       = ''supervisor_cartrita_v2''"
  by (simp add: pool_with_empty_id_def dom_default_pool assign_agent_def truthy_str_def)
     code_simp

text \<open>
  C1, amended. For every description and every pool that contains the default workers,
  and every preferred id that is absent or a non-empty string, the worker the manager
  assigns is the one the rule table of the specification selects: the preferred worker
  if it is in the pool; otherwise the worker of the first keyword group (computer use,
  research, vision, code, writing, in this order) with a keyword that is a substring of
  the lower-cased description; otherwise the supervisor. The assigned worker is in the
  pool.
\<close>

theorem router_follows_rule_order:
  assumes "default_agent_ids \<subseteq> dom agents" and "preferred \<noteq> Some []"
  shows "assign_agent agents preferred description
           = spec_router (dom agents) preferred description
     \<and> assign_agent agents preferred description \<in> dom agents"
proof (cases preferred)
  case None
  then show ?thesis using assms(1) route_task_default[of description]
    by (auto simp: assign_agent_def spec_router_def truthy_str_def route_task_spec)
next
  case (Some p)
  then show ?thesis using assms route_task_default[of description]
    by (auto simp: assign_agent_def spec_router_def truthy_str_def route_task_spec)
qed

theorem router_follows_rule_order_witness:
  "default_agent_ids \<subseteq> dom default_pool \<and> Some ''writer_agent_v2'' \<noteq> Some []
   \<and> assign_agent default_pool (Some ''writer_agent_v2'') ''research the CVE feed''
       = ''writer_agent_v2''
   \<and> spec_router (dom default_pool) (Some ''writer_agent_v2'') ''research the CVE feed''
       = ''writer_agent_v2''"
  using router_follows_rule_order
    [of default_pool "Some ''writer_agent_v2''" "''research the CVE feed''"]
  by (simp add: dom_default_pool spec_router_def default_agent_ids_def)

text \<open>The routing scenarios of the specification, run on the code.\<close>

lemma route_scenario_code:
  "assign_agent default_pool None ''Please write a python script to sort a list''
     = ''code_writer_agent_v2''"
  by (simp add: assign_agent_def truthy_str_def) code_simp

lemma route_scenario_computer_use:
  "assign_agent default_pool None ''Take a screenshot of the current desktop''
     = ''computer_use_agent_v2''
   \<and> requires_computer_use ''Take a screenshot of the current desktop''"
  by (simp add: assign_agent_def truthy_str_def) code_simp

lemma route_scenario_default:
  "assign_agent default_pool None ''Summarize my week'' = ''supervisor_cartrita_v2''"
  by (simp add: assign_agent_def truthy_str_def) code_simp

subsection \<open>Tool permissions\<close>

lemma check_permission_iff:
  "check_permission reg agent_id tool_name \<longleftrightarrow>
     tool_permissions reg tool_name = Some PUBLIC
     \<or> (\<exists>ts. agent_permissions reg agent_id = Some ts \<and> tool_name \<in> set ts)"
  by (cases "agent_permissions reg agent_id")
     (auto simp: check_permission_def Let_def split: option.splits)

lemma calls_tool_failed [simp]:
  "calls (snd (tool_failed rt reg tool_name agent_id e now)) = calls reg"
  by (simp add: tool_failed_def)

lemma execute_tool_calls:
  "calls (snd (execute_tool rt reg tool_name ps agent_id t0 t1)) \<noteq> calls reg
     \<Longrightarrow> check_permission reg agent_id tool_name"
  by (auto simp: execute_tool_def split: option.splits if_splits)

text \<open>
  C3. For every agent id and tool name, \<open>execute_tool\<close> invokes the registered callable
  only if the tool's permission level is public or the tool name is in the agent's
  grant list as it is when \<open>execute_tool\<close> runs; when the tool is registered and the
  permission check fails, the result is exactly
  \<open>{success: False, error: "Agent {agent_id} lacks permission for tool {tool_name}"}\<close>
  and the registry is left as it was: nothing is invoked and nothing is appended to the
  execution log.
\<close>

theorem execute_tool_enforces_permission:
  "(calls (snd (execute_tool rt reg tool_name ps agent_id t0 t1)) \<noteq> calls reg \<longrightarrow>
      tool_permissions reg tool_name = Some PUBLIC
      \<or> (\<exists>ts. agent_permissions reg agent_id = Some ts \<and> tool_name \<in> set ts))
   \<and> (tool_name \<in> dom (tools reg)
        \<and> tool_permissions reg tool_name \<noteq> Some PUBLIC
        \<and> \<not> (\<exists>ts. agent_permissions reg agent_id = Some ts \<and> tool_name \<in> set ts) \<longrightarrow>
      execute_tool rt reg tool_name ps agent_id t0 t1 =
        (VDict [(''success'', VBool False),
                (''error'', VStr (''Agent '' @ agent_id @ '' lacks permission for tool ''
                                   @ tool_name))], reg))"
proof (intro conjI impI)
  assume "calls (snd (execute_tool rt reg tool_name ps agent_id t0 t1)) \<noteq> calls reg"
  then have "check_permission reg agent_id tool_name"
    by (rule execute_tool_calls)
  then show "tool_permissions reg tool_name = Some PUBLIC
      \<or> (\<exists>ts. agent_permissions reg agent_id = Some ts \<and> tool_name \<in> set ts)"
    by (simp add: check_permission_iff)
next
  assume a: "tool_name \<in> dom (tools reg)
        \<and> tool_permissions reg tool_name \<noteq> Some PUBLIC
        \<and> \<not> (\<exists>ts. agent_permissions reg agent_id = Some ts \<and> tool_name \<in> set ts)"
  then have "\<not> check_permission reg agent_id tool_name"
    by (simp add: check_permission_iff)
  with a show "execute_tool rt reg tool_name ps agent_id t0 t1 =
        (VDict [(''success'', VBool False),
                (''error'', VStr (''Agent '' @ agent_id @ '' lacks permission for tool ''
                                   @ tool_name))], reg)"
    by (auto simp: execute_tool_def)
qed

lemma demo_registry_simps:
  "tools demo_registry ''file_read'' \<noteq> None"
  "tool_permissions demo_registry ''file_read'' = Some RESTRICTED"
  "tool_permissions demo_registry ''web_search'' = Some PUBLIC"
  "agent_permissions demo_registry = Map.empty"
  "calls demo_registry = []"
  by (simp_all add: demo_registry_def register_tool_def empty_registry_def)

theorem execute_tool_enforces_permission_witness:
  "execute_tool demo_runtime demo_registry ''file_read''
       (VDict [(''file_path'', VStr ''/tmp/a.txt'')]) ''A'' 0 5
     = (VDict [(''success'', VBool False),
               (''error'', VStr ''Agent A lacks permission for tool file_read'')],
        demo_registry)
   \<and> calls (snd (execute_tool demo_runtime demo_registry ''web_search''
                    (VDict [(''query'', VStr ''isabelle'')]) ''A'' 0 5))
       = [(''web_search'', [(''query'', VStr ''isabelle'')])]
   \<and> tool_permissions demo_registry ''web_search'' = Some PUBLIC"
  using execute_tool_enforces_permission
      [of demo_runtime demo_registry "''file_read''"
          "VDict [(''file_path'', VStr ''/tmp/a.txt'')]" "''A''" 0 5]
    execute_tool_enforces_permission
      [of demo_runtime demo_registry "''web_search''"
          "VDict [(''query'', VStr ''isabelle'')]" "''A''" 0 5]
  by (simp add: demo_registry_simps domIff)
     (simp add: execute_tool_def check_permission_def demo_registry_def register_tool_def
        empty_registry_def parse_parameters_def demo_tool_def Let_def)

subsection \<open>File tools\<close>

lemma under_imp_allowed:
  assumes "\<exists>d \<in> set safe_dirs. under d r"
  shows "path_allowed r"
proof -
  from assms obtain d where d: "d \<in> set safe_dirs" "under d r" by blast
  then have "prefix d r"
    by (auto simp: under_def dest: append_prefixD)
  with d(1) show ?thesis
    by (auto simp: path_allowed_def list_ex_iff)
qed

text \<open>
  C7 as stated fails in \<open>_file_read\<close>: a path that names no file gets \<open>File not found\<close>
  before the security check is reached, whatever directory it is in.
\<close>

theorem file_read_missing_file_outside_safe_dirs:
  "os_resolve simple_os demo_fs ''/etc/missing'' = Inr ''/etc/missing''
   \<and> \<not> under ''/tmp'' ''/etc/missing'' \<and> \<not> under ''/home'' ''/etc/missing''
   \<and> \<not> under ''/var/tmp'' ''/etc/missing''
   \<and> file_read simple_os demo_fs ''/etc/missing''
       = (VDict [(''error'', VStr ''File not found: /etc/missing'')], [])
   \<and> fst (file_read simple_os demo_fs ''/etc/missing'') \<noteq> access_denied"
  by (simp add: simple_os_def demo_fs_def under_def file_read_def access_denied_def)

text \<open>
  The check itself compares strings, not path components: a resolved path that merely
  begins with the characters \<open>/tmp\<close> passes it. Here \<open>_file_write\<close> creates
  \<open>/tmpfoo\<close> and writes \<open>/tmpfoo/x\<close>, which is not under \<open>/tmp\<close>.
\<close>

lemma file_write_string_prefix:
  "\<not> under ''/tmp'' ''/tmpfoo/x'' \<and> \<not> under ''/home'' ''/tmpfoo/x''
   \<and> \<not> under ''/var/tmp'' ''/tmpfoo/x''
   \<and> snd (snd (file_write simple_os demo_fs ''/tmpfoo/x'' ''data'' ''w''))
       = [OpMkdir ''/tmpfoo'', OpWrite ''/tmpfoo/x'' ''w'' ''data'']
   \<and> map_of (fs_files (fst (snd (file_write simple_os demo_fs ''/tmpfoo/x'' ''data'' ''w''))))
        ''/tmpfoo/x'' = Some ''data''"
  by (simp add: simple_os_def demo_fs_def under_def file_write_def path_allowed_def
      safe_dirs_def simple_parent_def simple_write_def)

text \<open>
  C7, amended. Let \<open>r\<close> be the resolved target path. (1) If \<open>r\<close> does not begin with any
  of \<open>/tmp\<close>, \<open>/home\<close>, \<open>/var/tmp\<close>, neither tool reads, writes or creates anything:
  file-write returns the access-denied error and leaves the file system as it was, and
  file-read returns the access-denied error when the path is an existing non-directory
  (a missing path or a directory is reported as such, before the check). (2) If \<open>r\<close> lies
  under one of the three directories, the check passes: file-read of an existing
  non-directory reads the file, and file-write first creates the missing parent
  directories of the target and only then, if that worked, writes; when both steps work it
  reports the bytes written.
\<close>

theorem file_tools_safe_dirs:
  "(os_resolve sys s p = Inr r \<and> \<not> (\<exists>d \<in> set safe_dirs. prefix d r) \<longrightarrow>
      file_write sys s p content mode = (access_denied, s, [])
      \<and> snd (file_read sys s p) = []
      \<and> (os_exists sys s p \<and> \<not> os_is_dir sys s p \<longrightarrow>
           fst (file_read sys s p) = access_denied))
   \<and> (os_resolve sys s p = Inr r \<and> (\<exists>d \<in> set safe_dirs. under d r) \<longrightarrow>
      (os_exists sys s p \<and> \<not> os_is_dir sys s p \<longrightarrow>
           snd (file_read sys s p) = [OpRead p])
      \<and> (snd (snd (file_write sys s p content mode)) = [OpMkdir (os_parent sys p)]
             \<and> fst (os_mkdir sys s (os_parent sys p)) \<noteq> None
          \<or> snd (snd (file_write sys s p content mode))
               = [OpMkdir (os_parent sys p), OpWrite p mode content]
             \<and> fst (os_mkdir sys s (os_parent sys p)) = None)
      \<and> (fst (os_mkdir sys s (os_parent sys p)) = None
          \<and> fst (os_write sys (snd (os_mkdir sys s (os_parent sys p))) p mode content) = None
          \<longrightarrow> fst (file_write sys s p content mode)
                = VDict [(''file_path'', VStr p),
                         (''bytes_written'', VInt (int (length content))),
                         (''mode'', VStr mode)]))"
proof (intro conjI impI)
  assume a: "os_resolve sys s p = Inr r \<and> \<not> (\<exists>d \<in> set safe_dirs. prefix d r)"
  then have na: "\<not> path_allowed r" by (simp add: path_allowed_def list_ex_iff)
  with a show "file_write sys s p content mode = (access_denied, s, [])"
    by (simp add: file_write_def)
  from a na show "snd (file_read sys s p) = []"
    by (simp add: file_read_def)
  assume "os_exists sys s p \<and> \<not> os_is_dir sys s p"
  with a na show "fst (file_read sys s p) = access_denied"
    by (simp add: file_read_def)
next
  assume a: "os_resolve sys s p = Inr r \<and> (\<exists>d \<in> set safe_dirs. under d r)"
  then have al: "path_allowed r" by (simp add: under_imp_allowed)
  from a al
  show "snd (snd (file_write sys s p content mode)) = [OpMkdir (os_parent sys p)]
             \<and> fst (os_mkdir sys s (os_parent sys p)) \<noteq> None
          \<or> snd (snd (file_write sys s p content mode))
               = [OpMkdir (os_parent sys p), OpWrite p mode content]
             \<and> fst (os_mkdir sys s (os_parent sys p)) = None"
    by (auto simp: file_write_def split: prod.splits option.splits)
  {
    assume "os_exists sys s p \<and> \<not> os_is_dir sys s p"
    with a al show "snd (file_read sys s p) = [OpRead p]"
      by (auto simp: file_read_def split: sum.splits)
  }
  {
    assume "fst (os_mkdir sys s (os_parent sys p)) = None
          \<and> fst (os_write sys (snd (os_mkdir sys s (os_parent sys p))) p mode content) = None"
    with a al show "fst (file_write sys s p content mode)
                = VDict [(''file_path'', VStr p),
                         (''bytes_written'', VInt (int (length content))),
                         (''mode'', VStr mode)]"
      by (auto simp: file_write_def split: prod.splits option.splits)
  }
qed

theorem file_tools_safe_dirs_witness:
  "file_write simple_os demo_fs ''/etc/passwd'' ''x'' ''w'' = (access_denied, demo_fs, [])
   \<and> file_read simple_os demo_fs ''/etc/passwd'' = (access_denied, [])
   \<and> file_read simple_os demo_fs ''/tmp/a.txt''
       = (VDict [(''file_path'', VStr ''/tmp/a.txt''), (''content'', VStr ''hello''),
                 (''size_bytes'', VInt 5)], [OpRead ''/tmp/a.txt''])
   \<and> snd (snd (file_write simple_os demo_fs ''/tmp/new/b.txt'' ''data'' ''w''))
       = [OpMkdir ''/tmp/new'', OpWrite ''/tmp/new/b.txt'' ''w'' ''data'']
   \<and> fst (file_write simple_os demo_fs ''/tmp/new/b.txt'' ''data'' ''w'')
       = VDict [(''file_path'', VStr ''/tmp/new/b.txt''), (''bytes_written'', VInt 4),
                (''mode'', VStr ''w'')]"
  using file_tools_safe_dirs
      [of simple_os demo_fs "''/etc/passwd''" "''/etc/passwd''" "''x''" "''w''"]
    file_tools_safe_dirs
      [of simple_os demo_fs "''/tmp/a.txt''" "''/tmp/a.txt''" "''data''" "''w''"]
    file_tools_safe_dirs
      [of simple_os demo_fs "''/tmp/new/b.txt''" "''/tmp/new/b.txt''" "''data''" "''w''"]
  by (simp add: simple_os_def demo_fs_def under_def file_write_def file_read_def
      path_allowed_def safe_dirs_def simple_parent_def simple_write_def access_denied_def)

subsection \<open>Message validation\<close>

lemma guard_Some [simp]: "guard b = Some u \<longleftrightarrow> b"
  by (simp add: guard_def)

lemma required_SomeD: "required conv kvs k = Some x \<Longrightarrow> \<exists>v. map_of kvs k = Some v \<and> conv v = Some x"
  by (simp add: required_def split: option.splits)

lemma parse_delivery_priority:
  "parse_delivery cv v = Some d \<Longrightarrow>
     0 \<le> dlv_priority d \<and> dlv_priority d \<le> 10
     \<and> 0 \<le> dlv_retry_count d \<and> dlv_retry_count d \<le> 10
     \<and> (\<exists>dkvs p. v = VDict dkvs \<and> map_of dkvs ''priority'' = Some p
                  \<and> as_int cv p = Some (dlv_priority d))"
  by (cases v)
     (auto simp: parse_delivery_def bind_eq_Some_conv dest!: required_SomeD)

lemma parse_message_facts:
  assumes "parse_message cv data = Some m"
  shows "\<exists>kvs. data = VDict kvs \<and> no_extra message_fields kvs
           \<and> required (as_str cv) kvs ''id'' = Some (msg_id m)
           \<and> validate_uuid (msg_id m)
           \<and> required (as_str cv) kvs ''trace_id'' = Some (msg_trace_id m)
           \<and> required (as_str cv) kvs ''span_id'' = Some (msg_span_id m)
           \<and> required (as_str cv) kvs ''sender'' = Some (msg_sender m)
           \<and> required (as_str cv) kvs ''recipient'' = Some (msg_recipient m)
           \<and> required (as_str cv) kvs ''message_type'' = Some (msg_message_type m)
           \<and> required Some kvs ''payload'' = Some (msg_payload m)
           \<and> required (parse_context cv) kvs ''context'' = Some (msg_context m)
           \<and> required (parse_delivery cv) kvs ''delivery'' = Some (msg_delivery m)
           \<and> required (as_datetime cv) kvs ''created_at'' = Some (msg_created_at m)"
  using assms
  by (cases data) (auto simp: parse_message_def bind_eq_Some_conv)

lemma validate_message_Inr: "validate_message cv data = Inr m \<longleftrightarrow> parse_message cv data = Some m"
  by (simp add: validate_message_def split: option.splits)

lemma map_of_dict_set: "map_of (dict_set k v kvs) = (map_of kvs)(k \<mapsto> v)"
  by (induction kvs) auto

lemma keys_dict_set: "set (map fst (dict_set k v kvs)) = insert k (set (map fst kvs))"
  by (induction k v kvs rule: dict_set.induct) auto

lemma required_key: "required conv kvs k = Some x \<Longrightarrow> k \<in> set (map fst kvs)"
  by (force simp: required_def split: option.splits dest!: map_of_SomeD)

lemma required_dict_set_other:
  "k' \<noteq> k \<Longrightarrow> required conv (dict_set k v kvs) k' = required conv kvs k'"
  by (simp add: required_def map_of_dict_set)

lemma optional_dict_set_other:
  "k' \<noteq> k \<Longrightarrow> optional conv (dict_set k v kvs) k' = optional conv kvs k'"
  by (simp add: optional_def map_of_dict_set)

lemma defaulted_dict_set_other:
  "k' \<noteq> k \<Longrightarrow> defaulted d conv (dict_set k v kvs) k' = defaulted d conv kvs k'"
  by (simp add: defaulted_def map_of_dict_set)

lemma no_extra_dict_set:
  "k \<in> set names \<Longrightarrow> no_extra names kvs \<Longrightarrow> no_extra names (dict_set k v kvs)"
  unfolding no_extra_def list_all_iff keys_dict_set by simp

lemma parse_message_any_type:
  assumes "parse_message cv (VDict kvs) = Some m" and "as_str cv (VStr t) = Some t"
  shows "parse_message cv (VDict (dict_set ''message_type'' (VStr t) kvs))
           = Some (m\<lparr>msg_message_type := t\<rparr>)"
proof -
  have ne: "no_extra message_fields (dict_set ''message_type'' (VStr t) kvs)"
    using assms(1)
    by (intro no_extra_dict_set)
       (auto simp: message_fields_def parse_message_def bind_eq_Some_conv)
  have ty: "required (as_str cv) (dict_set ''message_type'' (VStr t) kvs) ''message_type''
              = Some t"
    using assms(2) by (simp add: required_def map_of_dict_set)
  show ?thesis
    using assms(1) ne ty
    by (auto simp: parse_message_def bind_eq_Some_conv required_dict_set_other
        optional_dict_set_other defaulted_dict_set_other)
qed

text \<open>
  C5 as stated fails: \<open>message_type\<close> is declared \<open>str\<close>, so a type outside the
  message-type constants is accepted, and the id check only counts the parts between
  hyphens, so \<open>a-b-c-d-e\<close> passes as an id.
\<close>

theorem validate_message_accepts_unknown_type:
  "''NOT_A_MESSAGE_TYPE'' \<notin> set MessageTypes
   \<and> validate_message strict_coercions (raw_message ''a-b-c-d-e'' ''NOT_A_MESSAGE_TYPE'' 5)
       = Inr (typed_message ''a-b-c-d-e'' ''NOT_A_MESSAGE_TYPE'' 5)"
  by (simp add: validate_message_def parse_message_def raw_message_def raw_fields_def
       typed_message_def strict_coercions_def required_def optional_def defaulted_def no_extra_def
       message_fields_def validate_uuid_def parse_context_def parse_delivery_def
       context_fields_def delivery_fields_def as_guarantee_def guard_def MessageTypes_def)

text \<open>
  C5, amended. For every raw input and every conversion regime, \<open>validate_message\<close>
  returns a message only when the input is a mapping that has every required field and
  no field the model does not declare, whose id (as converted) splits into exactly five
  parts at hyphens, and whose delivery priority (as converted) is in \<open>[0, 10]\<close>; every
  other input is rejected with a \<open>ValidationError\<close>. The message type is not checked
  against the message-type constants: replacing the type of an accepted input by any
  string gives an accepted input.
\<close>

theorem validate_message_sound:
  "(validate_message cv data = Inr m \<longrightarrow>
      (\<exists>kvs dkvs p i.
          data = VDict kvs
          \<and> set required_message_fields \<subseteq> set (map fst kvs)
          \<and> set (map fst kvs) \<subseteq> set message_fields
          \<and> map_of kvs ''id'' = Some i \<and> as_str cv i = Some (msg_id m)
          \<and> length (split_on (CHR ''-'') (msg_id m)) = 5
          \<and> map_of kvs ''delivery'' = Some (VDict dkvs)
          \<and> map_of dkvs ''priority'' = Some p
          \<and> as_int cv p = Some (dlv_priority (msg_delivery m))
          \<and> 0 \<le> dlv_priority (msg_delivery m) \<and> dlv_priority (msg_delivery m) \<le> 10))
   \<and> (validate_message cv data
          = Inl (Exn ''ValidationError'' ''validation error for MCPMessage'')
        \<or> (\<exists>m'. validate_message cv data = Inr m'))
   \<and> (validate_message cv (VDict kvs') = Inr m \<and> as_str cv (VStr t) = Some t \<longrightarrow>
        validate_message cv (VDict (dict_set ''message_type'' (VStr t) kvs'))
          = Inr (m\<lparr>msg_message_type := t\<rparr>))"
proof (intro conjI impI)
  assume "validate_message cv data = Inr m"
  then have pm: "parse_message cv data = Some m"
    by (simp add: validate_message_Inr)
  from parse_message_facts[OF pm] obtain kvs where kvs:
    "data = VDict kvs" "no_extra message_fields kvs"
    "required (as_str cv) kvs ''id'' = Some (msg_id m)"
    "validate_uuid (msg_id m)"
    "required (as_str cv) kvs ''trace_id'' = Some (msg_trace_id m)"
    "required (as_str cv) kvs ''span_id'' = Some (msg_span_id m)"
    "required (as_str cv) kvs ''sender'' = Some (msg_sender m)"
    "required (as_str cv) kvs ''recipient'' = Some (msg_recipient m)"
    "required (as_str cv) kvs ''message_type'' = Some (msg_message_type m)"
    "required Some kvs ''payload'' = Some (msg_payload m)"
    "required (parse_context cv) kvs ''context'' = Some (msg_context m)"
    "required (parse_delivery cv) kvs ''delivery'' = Some (msg_delivery m)"
    "required (as_datetime cv) kvs ''created_at'' = Some (msg_created_at m)"
    by blast
  have req: "set required_message_fields \<subseteq> set (map fst kvs)"
    unfolding required_message_fields_def
    using kvs(3,5-13) by (auto dest!: required_key)
  have ext: "set (map fst kvs) \<subseteq> set message_fields"
    using kvs(2) by (auto simp: no_extra_def list_all_iff)
  from kvs(3) obtain i where i: "map_of kvs ''id'' = Some i" "as_str cv i = Some (msg_id m)"
    by (auto dest!: required_SomeD)
  from kvs(12) obtain dv where dv: "map_of kvs ''delivery'' = Some dv"
      "parse_delivery cv dv = Some (msg_delivery m)"
    by (auto dest!: required_SomeD)
  from parse_delivery_priority[OF dv(2)] obtain dkvs p where d:
    "dv = VDict dkvs" "map_of dkvs ''priority'' = Some p"
    "as_int cv p = Some (dlv_priority (msg_delivery m))"
    "0 \<le> dlv_priority (msg_delivery m)" "dlv_priority (msg_delivery m) \<le> 10"
    by blast
  show "\<exists>kvs dkvs p i.
          data = VDict kvs
          \<and> set required_message_fields \<subseteq> set (map fst kvs)
          \<and> set (map fst kvs) \<subseteq> set message_fields
          \<and> map_of kvs ''id'' = Some i \<and> as_str cv i = Some (msg_id m)
          \<and> length (split_on (CHR ''-'') (msg_id m)) = 5
          \<and> map_of kvs ''delivery'' = Some (VDict dkvs)
          \<and> map_of dkvs ''priority'' = Some p
          \<and> as_int cv p = Some (dlv_priority (msg_delivery m))
          \<and> 0 \<le> dlv_priority (msg_delivery m) \<and> dlv_priority (msg_delivery m) \<le> 10"
    using kvs(1,4) req ext i dv(1) d
    by (auto simp: validate_uuid_def)
next
  show "validate_message cv data
          = Inl (Exn ''ValidationError'' ''validation error for MCPMessage'')
        \<or> (\<exists>m'. validate_message cv data = Inr m')"
    by (simp add: validate_message_def split: option.splits)
next
  assume "validate_message cv (VDict kvs') = Inr m \<and> as_str cv (VStr t) = Some t"
  then show "validate_message cv (VDict (dict_set ''message_type'' (VStr t) kvs'))
          = Inr (m\<lparr>msg_message_type := t\<rparr>)"
    by (simp add: validate_message_Inr parse_message_any_type)
qed

lemma validate_raw_message:
  "validate_message strict_coercions (raw_message ident mtype prio) =
     (if validate_uuid ident \<and> 0 \<le> prio \<and> prio \<le> 10
      then Inr (typed_message ident mtype prio)
      else Inl (Exn ''ValidationError'' ''validation error for MCPMessage''))"
  by (simp add: validate_message_def parse_message_def raw_message_def raw_fields_def
       typed_message_def strict_coercions_def required_def optional_def defaulted_def
       no_extra_def message_fields_def parse_context_def parse_delivery_def
       context_fields_def delivery_fields_def as_guarantee_def guard_def)

lemma validate_uuid_examples:
  "validate_uuid ''123e4567-e89b-42d3-a456-426614174000''"
  "\<not> validate_uuid ''123e4567e89b42d3a456426614174000''"
  "validate_uuid ''a-b-c-d-e''"
  by (simp_all add: validate_uuid_def)

theorem validate_message_sound_witness:
  "validate_message strict_coercions
       (raw_message ''123e4567-e89b-42d3-a456-426614174000'' ''TASK_REQUEST'' 5)
     = Inr (typed_message ''123e4567-e89b-42d3-a456-426614174000'' ''TASK_REQUEST'' 5)
   \<and> length (split_on (CHR ''-'') ''123e4567-e89b-42d3-a456-426614174000'') = 5
   \<and> validate_message strict_coercions
        (VDict (dict_set ''message_type'' (VStr ''handshake'')
                  (raw_fields ''123e4567-e89b-42d3-a456-426614174000'' ''TASK_REQUEST'' 5)))
       = Inr (typed_message ''123e4567-e89b-42d3-a456-426614174000'' ''handshake'' 5)"
proof -
  let ?u = "''123e4567-e89b-42d3-a456-426614174000''"
  have v: "validate_message strict_coercions (raw_message ?u ''TASK_REQUEST'' 5)
             = Inr (typed_message ?u ''TASK_REQUEST'' 5)"
    by (simp add: validate_raw_message validate_uuid_examples)
  have s: "as_str strict_coercions (VStr ''handshake'') = Some ''handshake''"
    by (simp add: strict_coercions_def)
  have t: "(typed_message ?u ''TASK_REQUEST'' 5)\<lparr>msg_message_type := ''handshake''\<rparr>
             = typed_message ?u ''handshake'' 5"
    by (simp add: typed_message_def)
  note w = validate_message_sound
    [of strict_coercions "raw_message ?u ''TASK_REQUEST'' 5"
        "typed_message ?u ''TASK_REQUEST'' 5" "raw_fields ?u ''TASK_REQUEST'' 5"
        "''handshake''"]
  from w v have "length (split_on (CHR ''-'') (msg_id (typed_message ?u ''TASK_REQUEST'' 5))) = 5"
    by blast
  then have l: "length (split_on (CHR ''-'') ?u) = 5"
    by (simp add: typed_message_def)
  from w v s have "validate_message strict_coercions
        (VDict (dict_set ''message_type'' (VStr ''handshake'')
                  (raw_fields ?u ''TASK_REQUEST'' 5)))
       = Inr ((typed_message ?u ''TASK_REQUEST'' 5)\<lparr>msg_message_type := ''handshake''\<rparr>)"
    unfolding raw_message_def by blast
  with v l t show ?thesis by simp
qed

text \<open>Rejections: a priority out of range, an id without hyphens, a missing field.\<close>

lemma validate_message_rejections:
  "validate_message strict_coercions
       (raw_message ''123e4567-e89b-42d3-a456-426614174000'' ''TASK_REQUEST'' 11)
     = Inl (Exn ''ValidationError'' ''validation error for MCPMessage'')"
  "validate_message strict_coercions
       (raw_message ''123e4567e89b42d3a456426614174000'' ''TASK_REQUEST'' 5)
     = Inl (Exn ''ValidationError'' ''validation error for MCPMessage'')"
  "validate_message strict_coercions
       (VDict (tl (raw_fields ''123e4567-e89b-42d3-a456-426614174000'' ''TASK_REQUEST'' 5)))
     = Inl (Exn ''ValidationError'' ''validation error for MCPMessage'')"
  by (simp_all add: validate_raw_message validate_uuid_examples)
     (simp add: validate_message_def parse_message_def raw_fields_def required_def
        no_extra_def message_fields_def guard_def)

subsection \<open>Serialisation on the send path\<close>

lemma pack_error_items_member:
  "(k, v) \<in> set kvs \<Longrightarrow> pack_error v = Some e \<Longrightarrow> \<exists>e'. pack_error_items kvs = Some e'"
  by (induction kvs) (auto split: option.splits)

lemma pack_error_model_dump: "\<exists>e. pack_error (model_dump m) = Some e"
proof -
  obtain kvs where kvs: "model_dump m = VDict kvs"
      "(''created_at'', VDatetime (msg_created_at m)) \<in> set kvs"
    by (simp add: model_dump_def)
  have "\<exists>e. pack_error (VDatetime (msg_created_at m)) = Some e"
    by simp
  with kvs(2) have "\<exists>e. pack_error_items kvs = Some e"
    by (blast dest: pack_error_items_member)
  with kvs(1) show ?thesis by simp
qed

lemma packb_model_dump: "\<exists>e. packb cd (model_dump m) = Inl e"
  using pack_error_model_dump[of m] by (auto simp: packb_def)

lemma conn_send_message_fails:
  "\<exists>s. conn_send_message cv cd conn carrier m
          = Inl (Exn ''UnixSocketTransportError'' (''Failed to send message: '' @ s))"
proof (cases "if conn_enable_validation conn then validate_message cv (model_dump m)
              else Inr m")
  case (Inl e)
  then show ?thesis
    by (auto simp: conn_send_message_def transport_error_def)
next
  case (Inr a)
  obtain e where "packb cd (model_dump (m\<lparr>msg_context := (msg_context m)
       \<lparr>ctx_baggage := dict_update (ctx_baggage (msg_context m)) carrier\<rparr>\<rparr>)) = Inl e"
    using packb_model_dump by blast
  with Inr show ?thesis
    by (auto simp: conn_send_message_def transport_error_def Let_def)
qed

lemma broadcast_fails: "broadcast cv cd carrier m cs = []"
proof (induction cs)
  case Nil
  show ?case by simp
next
  case (Cons c cs)
  obtain s where "conn_send_message cv cd (snd c) carrier m
      = Inl (Exn ''UnixSocketTransportError'' (''Failed to send message: '' @ s))"
    using conn_send_message_fails by blast
  with Cons show ?case by simp
qed

lemma server_send_message_no_frame:
  "(case server_send_message cv cd srv carrier m client_id of
      Inl e \<Rightarrow> True | Inr frames \<Rightarrow> frames = [])"
proof (cases "client_id \<noteq> []")
  case False
  then show ?thesis by (simp add: server_send_message_def broadcast_fails)
next
  case True
  show ?thesis
  proof (cases "map_of (srv_clients srv) client_id")
    case None
    with True show ?thesis by (simp add: server_send_message_def)
  next
    case (Some client)
    obtain s where "conn_send_message cv cd client carrier m
      = Inl (Exn ''UnixSocketTransportError'' (''Failed to send message: '' @ s))"
      using conn_send_message_fails by blast
    with True Some show ?thesis by (simp add: server_send_message_def)
  qed
qed

text \<open>
  C8. The specification: serialising a valid message to the wire form, as the send path
  does, and deserialising it gives the message back. On the code the send path never
  produces a wire form: \<open>model_dump()\<close> keeps \<open>created_at\<close>, a required field, as a
  \<open>datetime\<close> object, which \<open>msgpack.packb\<close> as it is called cannot serialise. For every
  message, every conversion regime, every codec, every connection and every injected
  carrier, \<open>send_message\<close> raises \<open>UnixSocketTransportError\<close>; for the valid message of
  the scenarios the error is the packer's \<open>TypeError\<close>.
\<close>

theorem send_message_never_serialises:
  "(\<exists>s. conn_send_message cv cd conn carrier m
          = Inl (Exn ''UnixSocketTransportError'' (''Failed to send message: '' @ s)))
   \<and> validate_message strict_coercions (model_dump (typed_message demo_uuid ''TASK_REQUEST'' 5))
       = Inr (typed_message demo_uuid ''TASK_REQUEST'' 5)
   \<and> conn_send_message strict_coercions demo_codec demo_connection []
        (typed_message demo_uuid ''TASK_REQUEST'' 5)
       = Inl (Exn ''UnixSocketTransportError''
               (''Failed to send message: can not serialize '' @ [CHR 0x27]
                 @ ''datetime.datetime'' @ [CHR 0x27] @ '' object''))"
proof (intro conjI)
  show "\<exists>s. conn_send_message cv cd conn carrier m
          = Inl (Exn ''UnixSocketTransportError'' (''Failed to send message: '' @ s))"
    by (rule conn_send_message_fails)
  show v: "validate_message strict_coercions
         (model_dump (typed_message demo_uuid ''TASK_REQUEST'' 5))
       = Inr (typed_message demo_uuid ''TASK_REQUEST'' 5)"
    by (simp add: validate_message_def parse_message_def model_dump_def typed_message_def
       strict_coercions_def required_def optional_def defaulted_def no_extra_def
       message_fields_def parse_context_def parse_delivery_def context_fields_def
       delivery_fields_def as_guarantee_def guard_def dump_opt_def dump_context_def
       dump_delivery_def dump_str_dict_def list_of_def dict_of_def demo_uuid_def
       validate_uuid_def)
  have p: "packb demo_codec (model_dump ((typed_message demo_uuid ''TASK_REQUEST'' 5)
        \<lparr>msg_context := (msg_context (typed_message demo_uuid ''TASK_REQUEST'' 5))
           \<lparr>ctx_baggage := dict_update
              (ctx_baggage (msg_context (typed_message demo_uuid ''TASK_REQUEST'' 5))) []\<rparr>\<rparr>))
      = Inl (Exn ''TypeError'' (''can not serialize '' @ [CHR 0x27]
                 @ ''datetime.datetime'' @ [CHR 0x27] @ '' object''))"
    by (simp add: packb_def model_dump_def typed_message_def dump_opt_def dump_context_def
        dump_delivery_def dump_str_dict_def dict_update_def)
  show "conn_send_message strict_coercions demo_codec demo_connection []
        (typed_message demo_uuid ''TASK_REQUEST'' 5)
       = Inl (Exn ''UnixSocketTransportError''
               (''Failed to send message: can not serialize '' @ [CHR 0x27]
                 @ ''datetime.datetime'' @ [CHR 0x27] @ '' object''))"
    unfolding conn_send_message_def Let_def p
    by (simp add: v demo_connection_def transport_error_def)
qed

lemma server_send_message_Inr:
  "server_send_message cv cd srv carrier m client_id = Inr frames \<Longrightarrow> frames = []"
  using server_send_message_no_frame[of cv cd srv carrier m client_id] by simp

subsection \<open>Error responses of the server\<close>

lemma split_on_nonempty: "split_on c s \<noteq> []"
  by (induction s) (auto split: list.splits)

lemma length_split_on_Cons:
  "x \<noteq> c \<Longrightarrow> length (split_on c (x # xs)) = length (split_on c xs)"
  using split_on_nonempty[of c xs] by (auto split: list.splits)

lemma validate_uuid_error_prefix: "validate_uuid (''error_'' @ ident) = validate_uuid ident"
  by (simp add: validate_uuid_def length_split_on_Cons del: split_on.simps)

text \<open>
  The error response the server builds for a message with a valid id: failed, with the
  given error code, correlated to the original, trace and span ids kept, sender and
  recipient swapped, context and delivery options those of the message it was built
  from.
\<close>

lemma create_error_response_fields:
  assumes "validate_uuid (msg_id m)"
  shows "\<exists>r. create_error_response m err code = Inr r
     \<and> msg_message_type r = ''TASK_RESPONSE''
     \<and> msg_payload r = dump_task_response (error_task_response m err code)
     \<and> rsp_status (error_task_response m err code) = FAILED
     \<and> rsp_error_code (error_task_response m err code) = Some code
     \<and> msg_correlation_id r = Some (msg_id m)
     \<and> msg_trace_id r = msg_trace_id m \<and> msg_span_id r = msg_span_id m
     \<and> msg_sender r = msg_recipient m \<and> msg_recipient r = msg_sender m
     \<and> msg_context r = msg_context m \<and> msg_delivery r = msg_delivery m"
  using assms validate_uuid_error_prefix[of "msg_id m"]
  by (simp add: create_error_response_def error_task_response_def)

lemma annotate_client_fields:
  "msg_id (annotate_client m c) = msg_id m"
  "msg_trace_id (annotate_client m c) = msg_trace_id m"
  "msg_span_id (annotate_client m c) = msg_span_id m"
  "msg_sender (annotate_client m c) = msg_sender m"
  "msg_recipient (annotate_client m c) = msg_recipient m"
  "msg_delivery (annotate_client m c) = msg_delivery m"
  "msg_message_type (annotate_client m c) = msg_message_type m"
  "msg_context (annotate_client m c)
     = (msg_context m)\<lparr>ctx_metadata := dict_set ''client_id'' c (ctx_metadata (msg_context m))\<rparr>"
  by (simp_all add: annotate_client_def)

text \<open>
  C4. The specification: when the handler of a task-request raises, the server sends
  the originating client a failed task-response with the original's correlation, trace
  and span ids, swapped sender and recipient, and its context and delivery options. The
  code builds exactly that message (for the scenario: \<open>demo_error_response\<close>, whose
  context carries the client id the server wrote into the original), hands it to the
  client's connection, and the send raises: the response contains \<open>created_at\<close> as a
  \<open>datetime\<close>, which the packer cannot serialise. No frame is ever written by
  \<open>_dispatch_message\<close>, whatever the message, the handler and the clients.
\<close>

theorem dispatch_error_response_not_sent:
  "(case dispatch_message cv cd srv carrier message client_id of
      Inl e \<Rightarrow> True | Inr frames \<Rightarrow> frames = [])
   \<and> create_error_response
        (annotate_client (typed_message demo_uuid ''TASK_REQUEST'' 5) ''client_1'')
        ''boom'' INTERNAL_ERROR = Inr demo_error_response
   \<and> dispatch_message strict_coercions demo_codec demo_server []
        (typed_message demo_uuid ''TASK_REQUEST'' 5) ''client_1''
       = Inl (Exn ''UnixSocketTransportError''
               (''Failed to send message: can not serialize '' @ [CHR 0x27]
                 @ ''datetime.datetime'' @ [CHR 0x27] @ '' object''))"
proof (intro conjI)
  show "case dispatch_message cv cd srv carrier message client_id of
      Inl e \<Rightarrow> True | Inr frames \<Rightarrow> frames = []"
    by (auto simp: dispatch_message_def Let_def split: option.splits sum.splits
          dest: server_send_message_Inr)
  show c: "create_error_response
        (annotate_client (typed_message demo_uuid ''TASK_REQUEST'' 5) ''client_1'')
        ''boom'' INTERNAL_ERROR = Inr demo_error_response"
    by (simp add: create_error_response_def annotate_client_def typed_message_def
        demo_uuid_def validate_uuid_def demo_error_response_def error_task_response_def
        dump_task_response_def dump_metrics_def dump_opt_def dump_float_dict_def
        INTERNAL_ERROR_def)
  have v: "validate_message strict_coercions (model_dump demo_error_response)
             = Inr demo_error_response"
    by (simp add: validate_message_def parse_message_def model_dump_def
       demo_error_response_def
       strict_coercions_def required_def optional_def defaulted_def no_extra_def
       message_fields_def parse_context_def parse_delivery_def context_fields_def
       delivery_fields_def as_guarantee_def guard_def dump_opt_def dump_context_def
       dump_delivery_def dump_str_dict_def list_of_def dict_of_def validate_uuid_def)
  have p: "packb demo_codec (model_dump (demo_error_response
        \<lparr>msg_context := (msg_context demo_error_response)
           \<lparr>ctx_baggage := dict_update (ctx_baggage (msg_context demo_error_response)) []\<rparr>\<rparr>))
      = Inl (Exn ''TypeError'' (''can not serialize '' @ [CHR 0x27]
                 @ ''datetime.datetime'' @ [CHR 0x27] @ '' object''))"
    by (simp add: packb_def model_dump_def demo_error_response_def dump_opt_def
        dump_context_def dump_delivery_def dump_str_dict_def dict_update_def)
  have s: "conn_send_message strict_coercions demo_codec demo_connection []
             demo_error_response
       = Inl (Exn ''UnixSocketTransportError''
               (''Failed to send message: can not serialize '' @ [CHR 0x27]
                 @ ''datetime.datetime'' @ [CHR 0x27] @ '' object''))"
    unfolding conn_send_message_def Let_def p
    by (simp add: v demo_connection_def transport_error_def)
  show "dispatch_message strict_coercions demo_codec demo_server []
        (typed_message demo_uuid ''TASK_REQUEST'' 5) ''client_1''
       = Inl (Exn ''UnixSocketTransportError''
               (''Failed to send message: can not serialize '' @ [CHR 0x27]
                 @ ''datetime.datetime'' @ [CHR 0x27] @ '' object''))"
  proof -
    have mt: "msg_message_type (typed_message demo_uuid ''TASK_REQUEST'' 5) = ''TASK_REQUEST''"
      by (simp add: typed_message_def)
    show ?thesis
      by (simp add: dispatch_message_def Let_def demo_server_def c s
            server_send_message_def annotate_client_fields(7) mt)
  qed
qed

subsection \<open>Bridge\<close>

lemma TaskStatus_attr_simps:
  "TaskStatus_attr ''ACCEPTED'' = Inl (Exn ''AttributeError'' ''ACCEPTED'')"
  "TaskStatus_attr ''RUNNING'' = Inr RUNNING"
  "TaskStatus_attr ''FAILED'' = Inr FAILED"
  by (simp_all add: TaskStatus_attr_def)

text \<open>With the schema of the repository no message of the bridge is ever built: the
  keyword \<open>type\<close> is not a field of \<open>MCPMessage\<close>, whose extra fields are forbidden.\<close>

lemma schema_emit_fails: "\<exists>err. schema_emit cv cd e = Some err"
proof -
  have "\<not> no_extra message_fields (envelope_kwargs e)"
    by (simp add: no_extra_def envelope_kwargs_def message_fields_def)
  then have "parse_message cv (VDict (envelope_kwargs e)) = None"
    by (simp add: parse_message_def guard_def)
  then show ?thesis
    by (simp add: schema_emit_def validate_message_def)
qed

lemma bridge_send_schema: "bridge_send (schema_emit cv cd) s e = (schema_emit cv cd e, s)"
  using schema_emit_fails[of cv cd e] by (auto simp: bridge_send_def)




lemma bridge_send_active [simp]:
  "br_active_tasks (snd (bridge_send emit s e)) = br_active_tasks s"
  by (simp add: bridge_send_def split: option.splits)

lemma send_task_error_active [simp]:
  "br_active_tasks (fst (send_task_error emit uid clk s ag req tgt cid e)) = br_active_tasks s"
  by (simp add: send_task_error_def TaskStatus_attr_simps split: prod.splits)
     (metis bridge_send_active snd_conv)

text \<open>
  Every way into the \<open>except\<close> branch of \<open>_execute_agent_task\<close> leaves the active-tasks
  map as it was: when the agent raises, and when it returns an instance of the schema's
  \<open>TaskResponse\<close>, on which setting \<open>execution_time\<close> raises.
\<close>

lemma execute_agent_task_keeps_task:
  "(case agt_execute_task ag req of
      Inl e \<Rightarrow> br_active_tasks (fst (execute_agent_task emit uid clk s ag req tgt cid))
                 = br_active_tasks s
    | Inr (SchemaResponse r) \<Rightarrow>
        br_active_tasks (fst (execute_agent_task emit uid clk s ag req tgt cid))
          = br_active_tasks s
    | Inr (PlainResponse attrs) \<Rightarrow> True)"
proof -
  obtain err s1 where b: "bridge_send emit s
                (task_response_envelope (uid 0) (clk 0) tgt
                   [(''task_id'', VStr (req_task_id req)),
                    (''status'', VStr (status_value RUNNING)),
                    (''agent'', VStr (agt_name ag))] cid) = (err, s1)"
    by (cases "bridge_send emit s
                (task_response_envelope (uid 0) (clk 0) tgt
                   [(''task_id'', VStr (req_task_id req)),
                    (''status'', VStr (status_value RUNNING)),
                    (''agent'', VStr (agt_name ag))] cid)") auto
  then have s1: "br_active_tasks s1 = br_active_tasks s"
    by (metis bridge_send_active snd_conv)
  show ?thesis
    using b s1
    by (auto simp: execute_agent_task_def TaskStatus_attr_simps set_attribute_def
          response_fields_def
          split: sum.splits response_obj.splits option.splits)
qed




subsection \<open>Floating-point rounding\<close>

lemma rne_of_int [simp]: "rne (of_int n) = n"
  by (simp add: rne_def)

lemma rne_mono: assumes "x \<le> y" shows "rne x \<le> rne y"
proof (cases "\<lfloor>x\<rfloor> = \<lfloor>y\<rfloor>")
  case True
  then show ?thesis using assms
    by (auto simp: rne_def Let_def)
next
  case False
  with assms have "\<lfloor>x\<rfloor> < \<lfloor>y\<rfloor>"
    by (meson floor_mono le_neq_trans)
  moreover have "rne x \<le> \<lfloor>x\<rfloor> + 1" "\<lfloor>y\<rfloor> \<le> rne y"
    by (auto simp: rne_def Let_def)
  ultimately show ?thesis by linarith
qed

lemma rne_le: "x \<le> of_int n \<Longrightarrow> rne x \<le> n"
  using rne_mono[of x "of_int n"] by simp

lemma rne_ge: "of_int n \<le> x \<Longrightarrow> n \<le> rne x"
  using rne_mono[of "of_int n" x] by simp

lemma ulp_pos [simp]: "0 < ulp x"
  by (simp add: ulp_def)

lemma fl_pos_eq: "0 < x \<Longrightarrow> fl x = of_int (rne (x / ulp x)) * ulp x"
  by (simp add: fl_def)

lemma fl_nonneg: assumes "0 \<le> x" shows "0 \<le> fl x"
proof (cases "x = 0")
  case True
  then show ?thesis by (simp add: fl_def)
next
  case False
  with assms have "0 < x" by simp
  then have "of_int 0 \<le> x / ulp x"
    using ulp_pos[of x] by (simp add: divide_nonneg_pos less_imp_le del: ulp_pos)
  then have "0 \<le> rne (x / ulp x)" by (rule rne_ge)
  then have "0 \<le> of_int (rne (x / ulp x)) * ulp x"
    by (intro mult_nonneg_nonneg) (simp_all add: less_imp_le)
  with \<open>0 < x\<close> show ?thesis by (simp only: fl_pos_eq)
qed

text \<open>A positive number lies in the binade its exponent names, or below \<open>2\<^sup>-\<^sup>1\<^sup>0\<^sup>2\<^sup>2\<close>.\<close>

lemma below_next_binade: assumes "0 < x" shows "x < 2 powi (expo x + 1)"
proof -
  have "log 2 x < of_int (\<lfloor>log 2 x\<rfloor> + 1)" by linarith
  also have "\<dots> \<le> of_int (expo x + 1)" by (simp add: expo_def)
  finally have "x < 2 powr of_int (expo x + 1)"
    using assms by (simp add: log_less_iff)
  moreover have "2 powr of_int (expo x + 1) = (2::real) powi (expo x + 1)"
    by (rule powr_real_of_int') simp_all
  ultimately show ?thesis by (simp only:)
qed

lemma above_binade:
  assumes "0 < x" and "- 1022 < expo x" shows "2 powi (expo x) \<le> x"
proof -
  from assms(2) have "expo x = \<lfloor>log 2 x\<rfloor>" by (simp add: expo_def max_def split: if_splits)
  then have "of_int (expo x) \<le> log 2 x" by simp
  then have "2 powr of_int (expo x) \<le> x"
    using assms(1) by (simp add: le_log_iff)
  moreover have "2 powr of_int (expo x) = (2::real) powi (expo x)"
    by (rule powr_real_of_int') simp_all
  ultimately show ?thesis by (simp only:)
qed

lemma expo_mono: assumes "0 < x" "x \<le> y" shows "expo x \<le> expo y"
proof -
  have "log 2 x \<le> log 2 y" using assms by simp
  then have "\<lfloor>log 2 x\<rfloor> \<le> \<lfloor>log 2 y\<rfloor>" by (rule floor_mono)
  then show ?thesis by (simp add: expo_def)
qed

lemma powi_split: "(2::real) powi (e + 1) = 2 ^ 53 * 2 powi (e - 52)"
proof -
  have "e + 1 = 53 + (e - 52)" by simp
  then have "(2::real) powi (e + 1) = 2 powi (53 + (e - 52))" by (simp only:)
  also have "\<dots> = 2 powi 53 * 2 powi (e - 52)"
    by (subst power_int_add) simp_all
  finally show ?thesis by simp
qed

lemma powi_split0: "(2::real) powi e = 2 ^ 52 * 2 powi (e - 52)"
proof -
  have "e = 52 + (e - 52)" by simp
  then have "(2::real) powi e = 2 powi (52 + (e - 52))" by (simp only:)
  also have "\<dots> = 2 powi 52 * 2 powi (e - 52)"
    by (subst power_int_add) simp_all
  finally show ?thesis by simp
qed

lemma fl_le_next_binade: assumes "0 < x" shows "fl x \<le> 2 powi (expo x + 1)"
proof -
  have "x < 2 ^ 53 * ulp x"
    using below_next_binade[OF assms] by (simp add: powi_split ulp_def)
  then have "x / ulp x \<le> of_int (2 ^ 53)"
    by (simp add: pos_divide_le_eq)
  then have "rne (x / ulp x) \<le> 2 ^ 53" by (rule rne_le)
  then have "of_int (rne (x / ulp x)) \<le> (2 ^ 53 :: real)"
    by (metis of_int_le_iff of_int_numeral of_int_power)
  then have "of_int (rne (x / ulp x)) * ulp x \<le> 2 ^ 53 * ulp x"
    by (simp add: mult_right_mono)
  then show ?thesis using assms by (simp add: fl_pos_eq powi_split ulp_def)
qed

lemma fl_ge_binade:
  assumes "0 < x" and "- 1022 < expo x" shows "2 powi (expo x) \<le> fl x"
proof -
  have "2 ^ 52 * ulp x \<le> x"
    using above_binade[OF assms] powi_split0[of "expo x"] by (simp add: ulp_def)
  then have "of_int (2 ^ 52) \<le> x / ulp x"
    by (simp add: pos_le_divide_eq)
  then have "2 ^ 52 \<le> rne (x / ulp x)" by (rule rne_ge)
  then have "(2 ^ 52 :: real) \<le> of_int (rne (x / ulp x))"
    by (metis of_int_le_iff of_int_numeral of_int_power)
  then have "2 ^ 52 * ulp x \<le> of_int (rne (x / ulp x)) * ulp x"
    by (simp add: mult_right_mono)
  then show ?thesis
    using assms(1) powi_split0[of "expo x"] by (simp add: fl_pos_eq ulp_def)
qed

text \<open>Rounding is monotone on the non-negative numbers.\<close>

lemma fl_mono: assumes "0 \<le> x" "x \<le> y" shows "fl x \<le> fl y"
proof (cases "x = 0")
  case True
  then show ?thesis using assms fl_nonneg[of y] by (simp add: fl_def)
next
  case False
  with assms have px: "0 < x" and py: "0 < y" by simp_all
  have e: "expo x \<le> expo y" using px assms(2) by (rule expo_mono)
  show ?thesis
  proof (cases "expo x = expo y")
    case True
    then have u: "ulp x = ulp y" by (simp add: ulp_def)
    have "x / ulp y \<le> y / ulp y"
      using assms(2) by (intro divide_right_mono) (simp_all add: less_imp_le)
    then have "rne (x / ulp y) \<le> rne (y / ulp y)" by (rule rne_mono)
    then have "of_int (rne (x / ulp y)) * ulp y \<le> of_int (rne (y / ulp y)) * ulp y"
      by (simp add: mult_right_mono)
    then show ?thesis using px py u by (simp add: fl_pos_eq)
  next
    case False
    with e have lt: "expo x + 1 \<le> expo y" by simp
    have "- 1022 \<le> expo x" by (simp add: expo_def)
    with lt have "- 1022 < expo y" by simp
    have "fl x \<le> 2 powi (expo x + 1)" using px by (rule fl_le_next_binade)
    also have "\<dots> \<le> 2 powi (expo y)"
      using lt by (simp add: power_int_increasing)
    also have "\<dots> \<le> fl y" using py \<open>- 1022 < expo y\<close> by (rule fl_ge_binade)
    finally show ?thesis .
  qed
qed

text \<open>Evaluating the rounding at a given number.\<close>

lemma rne_eval:
  assumes "of_int n - 1 / 2 < x" and "x < of_int n + 1 / 2" shows "rne x = n"
proof -
  have "\<lfloor>x\<rfloor> = n \<or> \<lfloor>x\<rfloor> = n - 1"
    using assms by linarith
  then show ?thesis
  proof
    assume "\<lfloor>x\<rfloor> = n"
    with assms show ?thesis by (simp add: rne_def Let_def)
  next
    assume f: "\<lfloor>x\<rfloor> = n - 1"
    then have "x < of_int n" by linarith
    with f assms show ?thesis by (simp add: rne_def Let_def)
  qed
qed

lemma fl_eval:
  assumes "2 powi e \<le> x" and "x < 2 powi (e + 1)" and "- 1022 \<le> e"
  shows "fl x = of_int (rne (x / 2 powi (e - 52))) * 2 powi (e - 52)"
proof -
  have px: "0 < x"
    using assms(1) by (meson less_le_trans zero_less_numeral zero_less_power_int)
  have p: "2 powr of_int k = (2::real) powi k" for k
    by (rule powr_real_of_int') simp_all
  have "\<lfloor>log 2 x\<rfloor> = e"
    using assms(1,2) px by (simp only: floor_log_eq_powr_iff p)
  with assms(3) have "expo x = e" by (simp add: expo_def)
  with px show ?thesis by (simp add: fl_pos_eq ulp_def)
qed

lemma alpha_value: "alpha = 7205759403792794 / 2 ^ 56"
proof -
  have "fl (1 / 10) = of_int (rne ((1 / 10) / 2 powi (- 4 - 52))) * 2 powi (- 4 - 52)"
    by (rule fl_eval) (simp_all add: power_int_minus)
  moreover have "rne ((1 / 10) / 2 powi (- 4 - 52)) = 7205759403792794"
    by (rule rne_eval) (simp_all add: power_int_minus)
  ultimately show ?thesis by (simp add: alpha_def power_int_minus)
qed

lemma fl_alpha: "fl alpha = alpha"
proof -
  have "fl alpha = of_int (rne (alpha / 2 powi (- 4 - 52))) * 2 powi (- 4 - 52)"
    by (rule fl_eval) (simp_all add: power_int_minus alpha_value)
  moreover have "rne (alpha / 2 powi (- 4 - 52)) = 7205759403792794"
    by (rule rne_eval) (simp_all add: power_int_minus alpha_value)
  ultimately show ?thesis by (simp add: alpha_value power_int_minus)
qed

lemma one_minus_alpha_value: "one_minus_alpha = 8106479329266893 / 2 ^ 53"
proof -
  have "fl (1 - alpha)
          = of_int (rne ((1 - alpha) / 2 powi (- 1 - 52))) * 2 powi (- 1 - 52)"
    by (rule fl_eval) (simp_all add: power_int_minus alpha_value)
  moreover have "rne ((1 - alpha) / 2 powi (- 1 - 52)) = 8106479329266893"
    by (rule rne_eval) (simp_all add: power_int_minus alpha_value)
  ultimately show ?thesis by (simp add: one_minus_alpha_def fsub_def power_int_minus)
qed

lemma fl_one_minus_alpha: "fl one_minus_alpha = one_minus_alpha"
proof -
  have "fl one_minus_alpha
          = of_int (rne (one_minus_alpha / 2 powi (- 1 - 52))) * 2 powi (- 1 - 52)"
    by (rule fl_eval) (simp_all add: power_int_minus one_minus_alpha_value)
  moreover have "rne (one_minus_alpha / 2 powi (- 1 - 52)) = 8106479329266893"
    by (rule rne_eval) (simp_all add: power_int_minus one_minus_alpha_value)
  ultimately show ?thesis by (simp add: one_minus_alpha_value power_int_minus)
qed

text \<open>\<open>0.1 + (1 - 0.1)\<close> is a little more than one and rounds to \<open>1.0\<close>.\<close>

lemma fl_alpha_plus: "fl (alpha + one_minus_alpha) = 1"
proof -
  have "fl (alpha + one_minus_alpha)
          = of_int (rne ((alpha + one_minus_alpha) / 2 powi (0 - 52))) * 2 powi (0 - 52)"
    by (rule fl_eval) (simp_all add: power_int_minus alpha_value one_minus_alpha_value)
  moreover have "rne ((alpha + one_minus_alpha) / 2 powi (0 - 52)) = 4503599627370496"
    by (rule rne_eval) (simp_all add: power_int_minus alpha_value one_minus_alpha_value)
  ultimately show ?thesis by (simp add: power_int_minus)
qed

lemma alpha_bounds: "0 \<le> alpha" "0 \<le> one_minus_alpha"
  by (simp_all add: alpha_value one_minus_alpha_value)

subsection \<open>Success rate\<close>

text \<open>One update keeps the success rate in the unit interval.\<close>

lemma update_success_rate_bounds:
  assumes "0 \<le> rate" "rate \<le> 1"
  shows "0 \<le> update_success_rate rate ok \<and> update_success_rate rate ok \<le> 1"
proof -
  let ?c = "if ok then 1 else 0 :: real"
  have c: "0 \<le> ?c" "?c \<le> 1" by simp_all
  have a0: "0 \<le> alpha * ?c" using alpha_bounds(1) by simp
  have a1: "alpha * ?c \<le> alpha" using alpha_bounds(1) by simp
  have b0: "0 \<le> one_minus_alpha * rate"
    using alpha_bounds(2) assms(1) by simp
  have b1: "one_minus_alpha * rate \<le> one_minus_alpha"
    using alpha_bounds(2) assms(2) by (simp add: mult_left_le)
  have fa: "0 \<le> fl (alpha * ?c)" "fl (alpha * ?c) \<le> alpha"
    using fl_nonneg[OF a0] fl_mono[OF a0 a1] by (simp_all only: fl_alpha)
  have fb: "0 \<le> fl (one_minus_alpha * rate)" "fl (one_minus_alpha * rate) \<le> one_minus_alpha"
    using fl_nonneg[OF b0] fl_mono[OF b0 b1] by (simp_all only: fl_one_minus_alpha)
  have s0: "0 \<le> fl (alpha * ?c) + fl (one_minus_alpha * rate)"
    using fa(1) fb(1) by simp
  have s1: "fl (alpha * ?c) + fl (one_minus_alpha * rate) \<le> alpha + one_minus_alpha"
    using fa(2) fb(2) by simp
  have "0 \<le> fl (fl (alpha * ?c) + fl (one_minus_alpha * rate))"
    using s0 by (rule fl_nonneg)
  moreover have "fl (fl (alpha * ?c) + fl (one_minus_alpha * rate)) \<le> 1"
    using fl_mono[OF s0 s1] by (simp only: fl_alpha_plus)
  ultimately show ?thesis
    by (simp add: update_success_rate_def fadd_def fmul_def)
qed

text \<open>The invariant of the performance map, and of one record under updates.\<close>

lemma update_performance_rate:
  "success_rate (fst (update_performance p r now))
     = update_success_rate (success_rate p) (cr_success r)"
  by (simp add: update_performance_def Let_def)

lemma apply_updates_bounds:
  "0 \<le> success_rate p \<and> success_rate p \<le> 1
   \<Longrightarrow> 0 \<le> success_rate (apply_updates p us) \<and> success_rate (apply_updates p us) \<le> 1"
proof (induction us arbitrary: p)
  case Nil
  then show ?case by simp
next
  case (Cons u us)
  from Cons.prems have "0 \<le> update_success_rate (success_rate p) (cr_success (fst u))
      \<and> update_success_rate (success_rate p) (cr_success (fst u)) \<le> 1"
    by (intro update_success_rate_bounds) simp_all
  then have "0 \<le> success_rate (fst (update_performance p (fst u) (snd u)))
      \<and> success_rate (fst (update_performance p (fst u) (snd u))) \<le> 1"
    by (simp only: update_performance_rate)
  then show ?case
    using Cons.IH by simp
qed

lemma rates_apply_op:
  assumes "\<forall>a p. perf a = Some p \<longrightarrow> 0 \<le> success_rate p \<and> success_rate p \<le> 1"
  shows "\<forall>a p. apply_op perf oper a = Some p \<longrightarrow> 0 \<le> success_rate p \<and> success_rate p \<le> 1"
proof (cases oper)
  case (Create agent_id now)
  with assms show ?thesis
    by (auto simp: create_agent_def initial_performance_def)
next
  case (Update agent_id r now)
  show ?thesis
  proof (cases "perf agent_id")
    case None
    with assms Update show ?thesis by (simp add: update_agent_performance_def)
  next
    case (Some p)
    with assms have "0 \<le> success_rate p" "success_rate p \<le> 1"
      by auto
    then have "0 \<le> update_success_rate (success_rate p) (cr_success r)
        \<and> update_success_rate (success_rate p) (cr_success r) \<le> 1"
      by (rule update_success_rate_bounds)
    then have "0 \<le> success_rate (fst (update_performance p r now))
        \<and> success_rate (fst (update_performance p r now)) \<le> 1"
      by (simp only: update_performance_rate)
    with assms Some Update show ?thesis
      by (auto simp: update_agent_performance_def split: prod.splits)
  qed
next
  case (Shutdown agent_id)
  with assms show ?thesis
    by (auto simp: shutdown_agent_def split: if_splits)
next
  case ShutdownAll
  then show ?thesis by (simp add: shutdown_all_def)
qed

lemma rates_foldl:
  "\<forall>a p. perf a = Some p \<longrightarrow> 0 \<le> success_rate p \<and> success_rate p \<le> 1
   \<Longrightarrow> \<forall>a p. foldl apply_op perf ops a = Some p \<longrightarrow> 0 \<le> success_rate p \<and> success_rate p \<le> 1"
proof (induction ops arbitrary: perf)
  case Nil
  then show ?case by (simp only: foldl_Nil)
next
  case (Cons oper ops)
  from Cons.prems have "\<forall>a p. apply_op perf oper a = Some p
      \<longrightarrow> 0 \<le> success_rate p \<and> success_rate p \<le> 1"
    by (rule rates_apply_op)
  then have "\<forall>a p. foldl apply_op (apply_op perf oper) ops a = Some p
      \<longrightarrow> 0 \<le> success_rate p \<and> success_rate p \<le> 1"
    by (rule Cons.IH)
  then show ?case by (simp only: foldl_Cons)
qed

lemma rates_run:
  "run_manager ops a = Some p \<Longrightarrow> 0 \<le> success_rate p \<and> success_rate p \<le> 1"
  using rates_foldl[of Map.empty ops] by (simp add: run_manager_def)

text \<open>
  C9. For every worker, starting from its initial performance record and after any
  finite sequence of performance updates, with any responses, the success rate is in
  the closed interval \<open>[0, 1]\<close>; and so is the success rate of every worker that has a
  record after any history of the manager (agents created, updated and shut down in any
  order). The arithmetic is that of the code: binary64 products and sums, each rounded
  to nearest.
\<close>

theorem success_rate_in_unit_interval:
  "0 \<le> success_rate (apply_updates (initial_performance now) us)
   \<and> success_rate (apply_updates (initial_performance now) us) \<le> 1
   \<and> in_unit_interval (rate_after ops agent_id)"
proof -
  have "0 \<le> success_rate (apply_updates (initial_performance now) us)
      \<and> success_rate (apply_updates (initial_performance now) us) \<le> 1"
    by (rule apply_updates_bounds) (simp add: initial_performance_def)
  moreover have "in_unit_interval (rate_after ops agent_id)"
    using rates_run[of ops agent_id]
    by (cases "run_manager ops agent_id") (simp_all add: in_unit_interval_def rate_after_def)
  ultimately show ?thesis by simp
qed

text \<open>A worker that succeeds keeps the rate \<open>1.0\<close>; after one failure its rate is
  \<open>(1 - 0.1) * 1.0\<close>, the float \<open>0.9\<close>.\<close>

lemma fl_zero [simp]: "fl 0 = 0"
  by (simp add: fl_def)

lemma success_rate_examples:
  "update_success_rate 1 True = 1"
  "update_success_rate 1 False = one_minus_alpha"
  by (simp_all add: update_success_rate_def fadd_def fmul_def fl_alpha fl_one_minus_alpha
        fl_alpha_plus)

lemma rate_after_example:
  "rate_after [Create ''w'' t0, Update ''w'' \<lparr>cr_success = False, cr_execution_time_ms = 0\<rparr> t1]
     ''w'' = Some (8106479329266893 / 2 ^ 53)"
  by (simp add: rate_after_def run_manager_def create_agent_def update_agent_performance_def
        update_performance_def initial_performance_def success_rate_examples
        one_minus_alpha_value Let_def)

end
